theory Spec2Isabelle
  imports Complex_Main
begin

section \<open>JavaScript values\<close>

text \<open>
  A JavaScript string is a sequence of UTF-16 code units; \<open>length\<close>, indexing,
  \<open>slice\<close>, \<open>trim\<close> and the regular expressions of the sources all work
  on code units.  \<open>utf16\<close> writes an ASCII literal of the source as such a sequence.
\<close>

type_synonym jsstring = "nat list"

definition utf16 :: "string \<Rightarrow> jsstring" where
  "utf16 s = map of_char s"

text \<open>The character class \<open>\d\<close> of a regular expression: the ASCII digits 0 to 9.\<close>

definition isDigit :: "nat \<Rightarrow> bool" where
  "isDigit c = (48 \<le> c \<and> c \<le> 57)"

text \<open>\<open>s.slice(a, b)\<close> for \<open>0 \<le> a \<le> b\<close>.\<close>

definition slice :: "nat \<Rightarrow> nat \<Rightarrow> 'a list \<Rightarrow> 'a list" where
  "slice a b s = take (b - a) (drop a s)"

text \<open>
  \<open>Number.parseInt(s, 10)\<close> on a string \<open>s\<close> of ASCII digits: its decimal value.
  \<open>parseResidentId\<close> calls it on two-digit slices of a digit string only.
\<close>

definition parseInt10 :: "jsstring \<Rightarrow> int" where
  "parseInt10 s = foldl (\<lambda>acc c. 10 * acc + (int c - 48)) 0 s"

section \<open>Dates\<close>

text \<open>
  A \<open>Date\<close> is read through \<open>getFullYear\<close>, \<open>getMonth\<close> (0 to 11) and
  \<open>getDate\<close> only, so it is modelled by these three local calendar fields.
  \<open>new Date(year, monthIndex, day)\<close> normalises its arguments in the proleptic
  Gregorian calendar: a month index outside 0..11 carries into the year, a day beyond
  the month's end rolls over into the following months, a day below 1 into the
  preceding ones.  (The local time zone is taken to have no skipped calendar day, and
  the year to lie within the range a \<open>Date\<close> can hold.)
\<close>

record jsdate =
  getFullYear :: int
  getMonth :: int
  getDate :: int

definition isLeapYear :: "int \<Rightarrow> bool" where
  "isLeapYear y = ((y mod 4 = 0 \<and> y mod 100 \<noteq> 0) \<or> y mod 400 = 0)"

definition daysInMonth :: "int \<Rightarrow> int \<Rightarrow> int" where
  "daysInMonth y m =
     (if m = 1 then (if isLeapYear y then 29 else 28)
      else if m = 3 \<or> m = 5 \<or> m = 8 \<or> m = 10 then 30
      else 31)"

function rollDate :: "int \<Rightarrow> int \<Rightarrow> int \<Rightarrow> jsdate" where
  "rollDate y m d =
     (if d > daysInMonth y m then
        (if m = 11 then rollDate (y + 1) 0 (d - daysInMonth y m)
         else rollDate y (m + 1) (d - daysInMonth y m))
      else if d < 1 then
        (if m = 0 then rollDate (y - 1) 11 (d + daysInMonth (y - 1) 11)
         else rollDate y (m - 1) (d + daysInMonth y (m - 1)))
      else \<lparr>getFullYear = y, getMonth = m, getDate = d\<rparr>)"
  by pat_completeness auto
termination
  by (relation "measure (\<lambda>(y, m, d). nat (if d < 1 then 32 - d else d))")
     (auto simp: daysInMonth_def)

declare rollDate.simps [simp del]

definition newDate :: "int \<Rightarrow> int \<Rightarrow> int \<Rightarrow> jsdate" where
  "newDate year monthIndex day =
     (let yr = (if 0 \<le> year \<and> year \<le> 99 then 1900 + year else year)
      in rollDate (yr + monthIndex div 12) (monthIndex mod 12) day)"

section \<open>Resident identifier (src/app/page.tsx)\<close>

record AgeInfo =
  birth :: jsdate
  ageMonths :: int

definition centuryMap :: "nat \<rightharpoonup> int" where
  "centuryMap = map_of
     [(of_char CHR ''1'', 1900),
      (of_char CHR ''2'', 1900),
      (of_char CHR ''3'', 2000),
      (of_char CHR ''4'', 2000),
      (of_char CHR ''5'', 1900),
      (of_char CHR ''6'', 1900),
      (of_char CHR ''7'', 2000),
      (of_char CHR ''8'', 2000)]"

definition normalizeResidentId :: "jsstring \<Rightarrow> jsstring" where
  "normalizeResidentId value = filter (\<lambda>c. isDigit c) value"

definition getAgeMonths :: "jsdate \<Rightarrow> jsdate \<Rightarrow> int" where
  "getAgeMonths birthDate onDate =
     (let months = (getFullYear onDate - getFullYear birthDate) * 12 +
                   (getMonth onDate - getMonth birthDate)
      in if getDate onDate < getDate birthDate then months - 1 else months)"

definition parseResidentId :: "jsstring \<Rightarrow> jsdate \<Rightarrow> AgeInfo option" where
  "parseResidentId value referenceDate =
     (let digits = normalizeResidentId value in
      if length digits \<noteq> 13 then None
      else
        let yy = parseInt10 (slice 0 2 digits);
            mm = parseInt10 (slice 2 4 digits);
            dd = parseInt10 (slice 4 6 digits);
            genderCode = digits ! 6
        in case centuryMap genderCode of
             None \<Rightarrow> None
           | Some century \<Rightarrow>
               if century = 0 \<or> mm < 1 \<or> mm > 12 \<or> dd < 1 \<or> dd > 31 then None
               else
                 let year = century + yy;
                     birthDate = newDate year (mm - 1) dd
                 in if getFullYear birthDate \<noteq> year \<or>
                       getMonth birthDate \<noteq> mm - 1 \<or>
                       getDate birthDate \<noteq> dd
                    then None
                    else
                      let months = getAgeMonths birthDate referenceDate
                      in if months < 0 then None
                         else Some \<lparr>birth = birthDate, ageMonths = months\<rparr>)"

text \<open>
  Two notions the statements about \<open>parseResidentId\<close> are phrased in, independent
  of how the function computes: the two-digit decimal field starting at position \<open>i\<close>
  of a digit string, and the dates of the Gregorian calendar (months counted from 1).
\<close>

definition field2 :: "jsstring \<Rightarrow> nat \<Rightarrow> int" where
  "field2 digits i = 10 * (int (digits ! i) - 48) + (int (digits ! (i + 1)) - 48)"

definition calendarDate :: "int \<Rightarrow> int \<Rightarrow> int \<Rightarrow> bool" where
  "calendarDate y m d = (1 \<le> m \<and> m \<le> 12 \<and> 1 \<le> d \<and> d \<le> daysInMonth y (m - 1))"

section \<open>Visit deltas (src/app/page.tsx)\<close>

text \<open>
  \<open>Math.round\<close> returns the nearest integer, a tie going towards \<open>+\<infinity>\<close>.
  \<open>diffDays\<close> is modelled on the two \<open>getTime()\<close> values (milliseconds since
  the epoch, integers for valid dates), with the quotient taken exactly.
\<close>

definition Math_round :: "real \<Rightarrow> int" where
  "Math_round x = \<lfloor>x + 1 / 2\<rfloor>"

definition diffDays :: "int \<Rightarrow> int \<Rightarrow> int" where
  "diffDays start finish =
     max 1 (Math_round (real_of_int (finish - start) / (1000 * 60 * 60 * 24)))"

section \<open>JavaScript numbers\<close>

text \<open>
  A JavaScript number is a finite value, one of the two infinities, or \<open>NaN\<close>.
  Finite arithmetic is taken exactly, over the reals (no rounding, no overflow); the
  infinities and \<open>NaN\<close> follow IEEE 754, and zero carries no sign.  Where the
  sources read a number that may be \<open>undefined\<close> and only ask whether it is finite,
  \<open>undefined\<close> is written \<open>NaN\<close>: \<open>Number.isFinite\<close> is false on both.
\<close>

datatype jsnum = Fin real | PosInf | NegInf | NaN

fun isFinite :: "jsnum \<Rightarrow> bool" where
  "isFinite (Fin r) = True"
| "isFinite _ = False"

fun jsNeg :: "jsnum \<Rightarrow> jsnum" where
  "jsNeg (Fin a) = Fin (- a)"
| "jsNeg PosInf = NegInf"
| "jsNeg NegInf = PosInf"
| "jsNeg NaN = NaN"

fun jsAdd :: "jsnum \<Rightarrow> jsnum \<Rightarrow> jsnum" where
  "jsAdd (Fin a) (Fin b) = Fin (a + b)"
| "jsAdd NaN _ = NaN"
| "jsAdd _ NaN = NaN"
| "jsAdd PosInf NegInf = NaN"
| "jsAdd NegInf PosInf = NaN"
| "jsAdd PosInf _ = PosInf"
| "jsAdd _ PosInf = PosInf"
| "jsAdd NegInf _ = NegInf"
| "jsAdd _ NegInf = NegInf"

definition jsSub :: "jsnum \<Rightarrow> jsnum \<Rightarrow> jsnum" where
  "jsSub a b = jsAdd a (jsNeg b)"

text \<open>The sign of a number: \<open>1\<close>, \<open>0\<close> or \<open>-1\<close>; \<open>NaN\<close> has none.\<close>

fun jsSign :: "jsnum \<Rightarrow> int option" where
  "jsSign (Fin a) = Some (if a = 0 then 0 else if 0 < a then 1 else - 1)"
| "jsSign PosInf = Some 1"
| "jsSign NegInf = Some (- 1)"
| "jsSign NaN = None"

definition signedInf :: "int \<Rightarrow> jsnum" where
  "signedInf s = (if s = 0 then NaN else if 0 < s then PosInf else NegInf)"

fun jsMul :: "jsnum \<Rightarrow> jsnum \<Rightarrow> jsnum" where
  "jsMul (Fin a) (Fin b) = Fin (a * b)"
| "jsMul a b =
     (case (jsSign a, jsSign b) of
        (Some s, Some t) \<Rightarrow> signedInf (s * t)
      | _ \<Rightarrow> NaN)"

fun jsDiv :: "jsnum \<Rightarrow> jsnum \<Rightarrow> jsnum" where
  "jsDiv (Fin a) (Fin b) =
     (if b = 0 then (if a = 0 then NaN else if 0 < a then PosInf else NegInf)
      else Fin (a / b))"
| "jsDiv (Fin a) PosInf = Fin 0"
| "jsDiv (Fin a) NegInf = Fin 0"
| "jsDiv PosInf (Fin b) = (if b < 0 then NegInf else PosInf)"
| "jsDiv NegInf (Fin b) = (if b < 0 then PosInf else NegInf)"
| "jsDiv _ _ = NaN"

text \<open>\<open>a === b\<close> and \<open>a <= b\<close> on numbers: both false when either side is \<open>NaN\<close>.\<close>

fun strictEq :: "jsnum \<Rightarrow> jsnum \<Rightarrow> bool" where
  "strictEq NaN _ = False"
| "strictEq _ NaN = False"
| "strictEq a b = (a = b)"

fun jsLe :: "jsnum \<Rightarrow> jsnum \<Rightarrow> bool" where
  "jsLe NaN _ = False"
| "jsLe _ NaN = False"
| "jsLe NegInf _ = True"
| "jsLe _ PosInf = True"
| "jsLe (Fin a) (Fin b) = (a \<le> b)"
| "jsLe _ _ = False"

text \<open>
  \<open>Math.min(...xs)\<close> and \<open>Math.max(...xs)\<close>: \<open>NaN\<close> when an argument is,
  \<open>+Infinity\<close> resp. \<open>-Infinity\<close> for no argument.
\<close>

definition min2 :: "jsnum \<Rightarrow> jsnum \<Rightarrow> jsnum" where
  "min2 a b = (if a = NaN \<or> b = NaN then NaN else if jsLe a b then a else b)"

definition max2 :: "jsnum \<Rightarrow> jsnum \<Rightarrow> jsnum" where
  "max2 a b = (if a = NaN \<or> b = NaN then NaN else if jsLe a b then b else a)"

definition Math_min :: "jsnum list \<Rightarrow> jsnum" where
  "Math_min xs = foldr min2 xs PosInf"

definition Math_max :: "jsnum list \<Rightarrow> jsnum" where
  "Math_max xs = foldr max2 xs NegInf"

section \<open>Chart geometry (MetricChart, src/unnamed/part_003)\<close>

text \<open>
  The component is modelled as a function from its props to what it renders: the
  empty-state placeholder, or the scene of the \<open>svg\<close> element.  A path is kept as
  the list of its coordinates (the \<open>d\<close> attribute prints them), a class name as
  the string of the source.  The props \<open>xLabelFormatter\<close> and \<open>className\<close>,
  the grid and the axis labels do not enter any coordinate and are left out.
\<close>

record point =
  px :: jsnum
  py :: jsnum

record ReferenceCurve =
  curve_key :: jsstring
  curve_points :: "point list"

datatype eventType = Growth | Suppression

record ChartEvent =
  event_x :: jsnum
  event_label :: jsstring
  event_type :: eventType
  event_offset :: "jsnum option"

datatype metricType = HeightMetric | WeightMetric

record xrange =
  range_min :: jsnum
  range_max :: jsnum

record MetricChartProps =
  metric :: metricType
  chartValues :: "jsnum list"
  labels :: "jsstring list"
  xValues :: "jsnum list option"
  xRange :: "xrange option"
  referenceCurves :: "ReferenceCurve list option"
  highlightPoint :: "point option"
  events :: "ChartEvent list option"

definition width :: real where "width = 600"
definition height :: real where "height = 240"
definition padding_top :: real where "padding_top = 18"
definition padding_right :: real where "padding_right = 24"
definition padding_bottom :: real where "padding_bottom = 36"
definition padding_left :: real where "padding_left = 52"

text \<open>
  \<open>values.map((value, index) => ({x: xValues ? xValues[index] : index, y: value}))\<close>
  followed by the filter on finite coordinates; an index beyond \<open>xValues\<close> reads
  \<open>undefined\<close>.
\<close>

definition points :: "MetricChartProps \<Rightarrow> point list" where
  "points p =
     filter (\<lambda>pt. isFinite (px pt) \<and> isFinite (py pt))
       (map (\<lambda>(index, v).
               \<lparr>px = (case xValues p of
                          None \<Rightarrow> Fin (real index)
                        | Some xs \<Rightarrow> if index < length xs then xs ! index else NaN),
                py = v\<rparr>)
            (enumerate 0 (chartValues p)))"

definition referencePoints :: "MetricChartProps \<Rightarrow> point list" where
  "referencePoints p =
     concat (map curve_points (case referenceCurves p of None \<Rightarrow> [] | Some cs \<Rightarrow> cs))"

definition hasHighlight :: "MetricChartProps \<Rightarrow> bool" where
  "hasHighlight p =
     (case highlightPoint p of
        None \<Rightarrow> False
      | Some h \<Rightarrow> isFinite (px h) \<and> isFinite (py h))"

definition hasRenderableData :: "MetricChartProps \<Rightarrow> bool" where
  "hasRenderableData p = (points p \<noteq> [] \<or> referencePoints p \<noteq> [] \<or> hasHighlight p)"

definition allX :: "MetricChartProps \<Rightarrow> jsnum list" where
  "allX p =
     filter isFinite
       (map px (points p) @
        map px (referencePoints p) @
        (case highlightPoint p of None \<Rightarrow> [NaN] | Some h \<Rightarrow> [px h]) @
        map event_x (case events p of None \<Rightarrow> [] | Some es \<Rightarrow> es))"

definition allY :: "MetricChartProps \<Rightarrow> jsnum list" where
  "allY p =
     filter isFinite
       (map py (points p) @
        map py (referencePoints p) @
        (case highlightPoint p of None \<Rightarrow> [NaN] | Some h \<Rightarrow> [py h]))"

definition xMin :: "MetricChartProps \<Rightarrow> jsnum" where
  "xMin p = (case xRange p of Some r \<Rightarrow> range_min r | None \<Rightarrow> Math_min (allX p))"

definition xMax :: "MetricChartProps \<Rightarrow> jsnum" where
  "xMax p =
     (let xMax0 = (case xRange p of Some r \<Rightarrow> range_max r | None \<Rightarrow> Math_max (allX p))
      in if strictEq xMax0 (xMin p) then jsAdd (xMin p) (Fin 1) else xMax0)"

definition yRange :: "MetricChartProps \<Rightarrow> jsnum" where
  "yRange p =
     (let range0 = jsSub (Math_max (allY p)) (Math_min (allY p))
      in if strictEq range0 (Fin 0) then Fin 1 else range0)"

definition pad :: "MetricChartProps \<Rightarrow> jsnum" where
  "pad p = jsMul (yRange p) (Fin (18 / 100))"

definition yMin :: "MetricChartProps \<Rightarrow> jsnum" where
  "yMin p = jsSub (Math_min (allY p)) (pad p)"

definition yMax :: "MetricChartProps \<Rightarrow> jsnum" where
  "yMax p = jsAdd (Math_max (allY p)) (pad p)"

definition plotWidth :: real where
  "plotWidth = width - padding_left - padding_right"

definition plotHeight :: real where
  "plotHeight = height - padding_top - padding_bottom"

definition xFor :: "MetricChartProps \<Rightarrow> jsnum \<Rightarrow> jsnum" where
  "xFor p v =
     jsAdd (Fin padding_left)
       (jsMul (jsDiv (jsSub v (xMin p)) (jsSub (xMax p) (xMin p))) (Fin plotWidth))"

definition yFor :: "MetricChartProps \<Rightarrow> jsnum \<Rightarrow> jsnum" where
  "yFor p v =
     jsAdd (Fin padding_top)
       (jsMul (Fin plotHeight)
          (jsSub (Fin 1) (jsDiv (jsSub v (yMin p)) (jsSub (yMax p) (yMin p)))))"

definition plot :: "MetricChartProps \<Rightarrow> point \<Rightarrow> jsnum \<times> jsnum" where
  "plot p pt = (xFor p (px pt), yFor p (py pt))"

record CurvePath =
  path_key :: jsstring
  path_d :: "(jsnum \<times> jsnum) list"

text \<open>
  A reference curve is clipped to the x-domain, loses its points with a non-finite
  \<open>y\<close>, and is dropped (\<open>null\<close>, filtered out) when nothing remains.
\<close>

definition curvePath :: "MetricChartProps \<Rightarrow> ReferenceCurve \<Rightarrow> CurvePath option" where
  "curvePath p curve =
     (let filtered =
            filter (\<lambda>pt. jsLe (xMin p) (px pt) \<and> jsLe (px pt) (xMax p) \<and> isFinite (py pt))
              (curve_points curve)
      in if filtered = [] then None
         else Some \<lparr>path_key = curve_key curve, path_d = map (plot p) filtered\<rparr>)"

definition curvePaths :: "MetricChartProps \<Rightarrow> CurvePath list" where
  "curvePaths p =
     List.map_filter (curvePath p)
       (case referenceCurves p of None \<Rightarrow> [] | Some cs \<Rightarrow> cs)"

definition curveClass :: "jsstring \<Rightarrow> string" where
  "curveClass k =
     (if k = utf16 ''50th'' then ''chart-percentile major''
      else if k = utf16 ''3rd'' \<or> k = utf16 ''97th'' then ''chart-percentile mid''
      else ''chart-percentile'')"

record CurveElement =
  element_key :: jsstring
  element_d :: "(jsnum \<times> jsnum) list"
  element_class :: string

definition curveElement :: "CurvePath \<Rightarrow> CurveElement" where
  "curveElement curve =
     \<lparr>element_key = path_key curve, element_d = path_d curve,
      element_class = curveClass (path_key curve)\<rparr>"

text \<open>
  An event marker is an arrow whose tip is at \<open>x = xFor(event.x) + (event.offset ?? 0)\<close>,
  with the label centred on the same \<open>x\<close>.
\<close>

record EventMarker =
  marker_x :: jsnum
  marker_label :: jsstring
  marker_class :: string

definition eventMarker :: "MetricChartProps \<Rightarrow> ChartEvent \<Rightarrow> EventMarker" where
  "eventMarker p event =
     \<lparr>marker_x = jsAdd (xFor p (event_x event))
                    (case event_offset event of None \<Rightarrow> Fin 0 | Some off \<Rightarrow> off),
      marker_label = event_label event,
      marker_class = (if event_type event = Growth then ''chart-event-growth''
                      else ''chart-event-suppression'')\<rparr>"

record Scene =
  scene_xMin :: jsnum
  scene_xMax :: jsnum
  scene_min :: jsnum
  scene_max :: jsnum
  scene_curves :: "CurveElement list"
  scene_line :: "(jsnum \<times> jsnum) list"
  scene_highlight :: "(jsnum \<times> jsnum) option"
  scene_events :: "EventMarker list"

datatype rendering = EmptyState | Svg Scene

definition MetricChart :: "MetricChartProps \<Rightarrow> rendering" where
  "MetricChart p =
     (if \<not> hasRenderableData p then EmptyState
      else Svg
        \<lparr>scene_xMin = xMin p,
         scene_xMax = xMax p,
         scene_min = yMin p,
         scene_max = yMax p,
         scene_curves = map curveElement (curvePaths p),
         scene_line = map (plot p) (points p),
         scene_highlight = map_option (plot p) (highlightPoint p),
         scene_events = map (eventMarker p) (case events p of None \<Rightarrow> [] | Some es \<Rightarrow> es)\<rparr>)"

section \<open>Injection events (src/app/page.tsx)\<close>

record Visit =
  visit_id :: jsstring
  visit_date :: jsstring
  visit_height :: jsnum
  visit_weight :: jsnum
  visit_bmi :: jsnum
  visit_ageMonths :: jsnum
  growthInjection :: bool
  suppressionInjection :: bool

definition growthLabel :: jsstring where
  "growthLabel = [49457, 51109, 51452, 49324]"

definition suppressionLabel :: jsstring where
  "suppressionLabel = [50613, 51228, 51452, 49324]"

text \<open>The body of the \<open>flatMap\<close> callback: the events of one visit.\<close>

definition visitEvents :: "Visit \<Rightarrow> ChartEvent list" where
  "visitEvents visit =
     (let es =
            (if growthInjection visit
             then [\<lparr>event_x = visit_ageMonths visit, event_label = growthLabel,
                    event_type = Growth, event_offset = None\<rparr>]
             else []) @
            (if suppressionInjection visit
             then [\<lparr>event_x = visit_ageMonths visit, event_label = suppressionLabel,
                    event_type = Suppression, event_offset = None\<rparr>]
             else [])
      in if length es = 2
         then [(es ! 0)\<lparr>event_offset := Some (Fin (- 8))\<rparr>,
               (es ! 1)\<lparr>event_offset := Some (Fin 8)\<rparr>]
         else es)"

definition injectionEvents :: "Visit list \<Rightarrow> ChartEvent list" where
  "injectionEvents visits = concat (map visitEvents visits)"

section \<open>Sample inputs\<close>

text \<open>Concrete props and visits at which the statements below are evaluated.\<close>

definition oneVisitChart :: MetricChartProps where
  "oneVisitChart =
     \<lparr>metric = HeightMetric, chartValues = [Fin 100], labels = [], xValues = Some [Fin 24],
      xRange = None, referenceCurves = None, highlightPoint = None, events = None\<rparr>"

definition eventsOnlyChart :: MetricChartProps where
  "eventsOnlyChart =
     \<lparr>metric = HeightMetric, chartValues = [], labels = [], xValues = Some [],
      xRange = None, referenceCurves = Some [], highlightPoint = None,
      events = Some [\<lparr>event_x = Fin 30, event_label = growthLabel,
                      event_type = Growth, event_offset = None\<rparr>]\<rparr>"

definition sampleCurves :: "ReferenceCurve list" where
  "sampleCurves =
     [\<lparr>curve_key = utf16 ''3rd'', curve_points = [\<lparr>px = Fin 24, py = Fin 80\<rparr>]\<rparr>,
      \<lparr>curve_key = utf16 ''10th'', curve_points = [\<lparr>px = Fin 24, py = Fin 82\<rparr>]\<rparr>,
      \<lparr>curve_key = utf16 ''50th'', curve_points = [\<lparr>px = Fin 24, py = Fin 87\<rparr>]\<rparr>,
      \<lparr>curve_key = utf16 ''97th'', curve_points = [\<lparr>px = Fin 24, py = Fin 94\<rparr>]\<rparr>]"

definition curvesChart :: "ReferenceCurve list \<Rightarrow> MetricChartProps" where
  "curvesChart cs =
     \<lparr>metric = HeightMetric, chartValues = [], labels = [], xValues = None,
      xRange = None, referenceCurves = Some cs, highlightPoint = None, events = None\<rparr>"

definition sampleVisit :: "bool \<Rightarrow> bool \<Rightarrow> Visit" where
  "sampleVisit growth suppression =
     \<lparr>visit_id = utf16 ''v'', visit_date = utf16 ''2024-06-15T03:00:00.000Z'',
      visit_height = Fin 130, visit_weight = Fin 28, visit_bmi = Fin (28 / (13 / 10)\<^sup>2),
      visit_ageMonths = Fin 100, growthInjection = growth,
      suppressionInjection = suppression\<rparr>"

section \<open>Growth table parser (parseGrowthCsv, src/unnamed/part_002)\<close>

text \<open>
  \<open>String.prototype.trim\<close> removes the white space and line terminator code units
  from both ends.
\<close>

definition isWhiteSpace :: "nat \<Rightarrow> bool" where
  "isWhiteSpace c =
     (c \<in> {9, 10, 11, 12, 13, 32, 160, 5760, 8232, 8233, 8239, 8287, 12288, 65279} \<or>
      (8192 \<le> c \<and> c \<le> 8202))"

definition trim :: "jsstring \<Rightarrow> jsstring" where
  "trim s = rev (dropWhile isWhiteSpace (rev (dropWhile isWhiteSpace s)))"

text \<open>\<open>xs[i]\<close>: \<open>undefined\<close> (here \<open>None\<close>) beyond the end of the array.\<close>

definition elemAt :: "'a list \<Rightarrow> nat \<Rightarrow> 'a option" where
  "elemAt xs i = (if i < length xs then Some (xs ! i) else None)"

text \<open>
  \<open>content.split(/\r?\n/)\<close>: the text is cut at every line feed, a carriage return
  right before it belonging to the separator.  The second argument is the line read so
  far.
\<close>

fun splitLines :: "jsstring \<Rightarrow> jsstring \<Rightarrow> jsstring list" where
  "splitLines [] cur = [cur]"
| "splitLines [c] cur = (if c = 10 then [cur, []] else [cur @ [c]])"
| "splitLines (c # d # rest) cur =
     (if c = 13 \<and> d = 10 then cur # splitLines rest []
      else if c = 10 then cur # splitLines (d # rest) []
      else splitLines (d # rest) (cur @ [c]))"

text \<open>
  \<open>parseCsvLine\<close>: the loop over the characters of the line, with the fields found
  so far, the field being read and the quoting state.  34 is the double quote, 44 the
  comma; a doubled quote inside quotes is a quote of the field and skips one character.
\<close>

fun csvLoop :: "jsstring \<Rightarrow> jsstring list \<Rightarrow> jsstring \<Rightarrow> bool \<Rightarrow> jsstring list" where
  "csvLoop [] values current inQuotes = values @ [trim current]"
| "csvLoop [c] values current inQuotes =
     (if c = 34 then csvLoop [] values current (\<not> inQuotes)
      else if c = 44 \<and> \<not> inQuotes then csvLoop [] (values @ [trim current]) [] inQuotes
      else csvLoop [] values (current @ [c]) inQuotes)"
| "csvLoop (c # d # rest) values current inQuotes =
     (if c = 34 then
        (if inQuotes \<and> d = 34 then csvLoop rest values (current @ [34]) inQuotes
         else csvLoop (d # rest) values current (\<not> inQuotes))
      else if c = 44 \<and> \<not> inQuotes then csvLoop (d # rest) (values @ [trim current]) [] inQuotes
      else csvLoop (d # rest) values (current @ [c]) inQuotes)"

definition parseCsvLine :: "jsstring \<Rightarrow> jsstring list" where
  "parseCsvLine line = csvLoop line [] [] False"

text \<open>\<open>xs.findIndex(P)\<close>: the first index satisfying \<open>P\<close>, or \<open>-1\<close>.\<close>

fun findIndex :: "('a \<Rightarrow> bool) \<Rightarrow> 'a list \<Rightarrow> int" where
  "findIndex P [] = - 1"
| "findIndex P (x # xs) =
     (if P x then 0 else (let r = findIndex P xs in if r < 0 then - 1 else r + 1))"

text \<open>\<open>s.includes(m)\<close>: \<open>m\<close> occurs in \<open>s\<close> as a contiguous substring.\<close>

fun jsIncludes :: "jsstring \<Rightarrow> jsstring \<Rightarrow> bool" where
  "jsIncludes [] m = (m = [])"
| "jsIncludes (c # s) m = (take (length m) (c # s) = m \<or> jsIncludes s m)"

text \<open>
  \<open>percentilePattern = /^\d+(st|nd|rd|th)$/i\<close>: one or more digits followed by one
  of the four suffixes, in either case.  The pattern has neither the \<open>g\<close> nor the
  \<open>y\<close> flag, so \<open>test\<close> keeps no position from one call to the next.
\<close>

definition toLowerAscii :: "nat \<Rightarrow> nat" where
  "toLowerAscii c = (if 65 \<le> c \<and> c \<le> 90 then c + 32 else c)"

definition percentilePattern_test :: "jsstring \<Rightarrow> bool" where
  "percentilePattern_test s =
     (takeWhile isDigit s \<noteq> [] \<and>
      map toLowerAscii (dropWhile isDigit s) \<in>
        set [utf16 ''st'', utf16 ''nd'', utf16 ''rd'', utf16 ''th''])"

text \<open>
  The built-in conversions between strings and numbers: \<open>Number.parseInt(s, 10)\<close> and
  \<open>Number.parseFloat(s)\<close> (on a string or \<open>undefined\<close>) and \<open>String(n)\<close>.  Their
  results are nearest doubles, beyond what exact arithmetic gives, so the parser takes
  them as a parameter and everything proved of it holds whatever they return.
\<close>

record NumberFormat =
  parseInt :: "jsstring option \<Rightarrow> jsnum"
  parseFloat :: "jsstring option \<Rightarrow> jsnum"
  numberToString :: "jsnum \<Rightarrow> jsstring"

record GrowthCurve =
  ages :: "jsnum list"
  percentiles :: "jsstring \<rightharpoonup> jsnum list"

record ParsedTable =
  table_percentiles :: "jsstring list"
  bySex :: "jsstring \<rightharpoonup> GrowthCurve"

record Column =
  column_name :: jsstring
  column_index :: nat

datatype error = TypeError

definition sexMarker :: jsstring where
  "sexMarker = [49457, 48324]"

definition monthMarker :: jsstring where
  "monthMarker = [47564, 45208, 51060, 40, 44060, 50900]"

definition emptyTable :: ParsedTable where
  "emptyTable = \<lparr>table_percentiles = [], bySex = Map.empty\<rparr>"

text \<open>
  \<open>xs.forEach(f)\<close> for a callback that updates a state and may throw: the first
  exception ends the loop.
\<close>

fun forEach :: "('s \<Rightarrow> 'a \<Rightarrow> error + 's) \<Rightarrow> 'a list \<Rightarrow> 's \<Rightarrow> error + 's" where
  "forEach f [] s = Inr s"
| "forEach f (x # xs) s = (case f s x of Inl e \<Rightarrow> Inl e | Inr s' \<Rightarrow> forEach f xs s')"

text \<open>
  \<open>entry?.percentiles[column.name].push(...)\<close>: a \<open>TypeError\<close> when the curve has
  no array under the column's name.
\<close>

definition pushPercentile ::
  "NumberFormat \<Rightarrow> jsstring list \<Rightarrow> GrowthCurve \<Rightarrow> Column \<Rightarrow> error + GrowthCurve" where
  "pushPercentile N cells entry column =
     (let rawValue = elemAt cells (column_index column);
          parsed = parseFloat N rawValue
      in case percentiles entry (column_name column) of
           None \<Rightarrow> Inl TypeError
         | Some arr \<Rightarrow>
             Inr (entry\<lparr>percentiles := (percentiles entry)
                    (column_name column \<mapsto> arr @ [if isFinite parsed then parsed else NaN])\<rparr>))"

text \<open>The callback of \<open>lines.slice(2).forEach\<close>: one data row.\<close>

definition processRow ::
  "NumberFormat \<Rightarrow> int \<Rightarrow> int \<Rightarrow> Column list \<Rightarrow> (jsstring \<rightharpoonup> GrowthCurve) \<Rightarrow> jsstring
   \<Rightarrow> error + (jsstring \<rightharpoonup> GrowthCurve)" where
  "processRow N sexIndex monthIndex percentileColumns table line =
     (let cells = parseCsvLine line;
          sexValue = parseInt N (elemAt cells (nat sexIndex));
          monthValue = parseInt N (elemAt cells (nat monthIndex))
      in if \<not> isFinite sexValue \<or> \<not> isFinite monthValue then Inr table
         else
           let key = numberToString N sexValue;
               entry = (case table key of
                          Some e \<Rightarrow> e
                        | None \<Rightarrow>
                            \<lparr>ages = [],
                             percentiles =
                               map_of (map (\<lambda>column. (column_name column, [])) percentileColumns)\<rparr>);
               entry1 = entry\<lparr>ages := ages entry @ [monthValue]\<rparr>
           in case forEach (pushPercentile N cells) percentileColumns entry1 of
                Inl e \<Rightarrow> Inl e
              | Inr entry2 \<Rightarrow> Inr (table(key \<mapsto> entry2)))"

definition nonBlankLines :: "jsstring \<Rightarrow> jsstring list" where
  "nonBlankLines content = filter (\<lambda>line. length (trim line) > 0) (splitLines content [])"

definition stripBom :: "jsstring \<Rightarrow> jsstring" where
  "stripBom s = (case s of [] \<Rightarrow> [] | c # rest \<Rightarrow> if c = 65279 then rest else s)"

text \<open>The effective column names, from the two header lines.\<close>

definition columns :: "jsstring list \<Rightarrow> jsstring list" where
  "columns lines =
     (let headerTop = map (\<lambda>(index, v). if index = 0 then stripBom v else v)
                          (enumerate 0 (parseCsvLine (lines ! 0)));
          headerBottom = parseCsvLine (lines ! 1)
      in map (\<lambda>(index, v).
                case elemAt headerBottom index of
                  None \<Rightarrow> trim v
                | Some b \<Rightarrow> if trim b = [] then trim v else trim b)
             (enumerate 0 headerTop))"

definition percentileColumns :: "jsstring list \<Rightarrow> Column list" where
  "percentileColumns cols =
     filter (\<lambda>column. percentilePattern_test (column_name column))
       (map (\<lambda>(index, name). \<lparr>column_name = trim name, column_index = index\<rparr>)
            (enumerate 0 cols))"

definition parseGrowthCsv :: "NumberFormat \<Rightarrow> jsstring \<Rightarrow> error + ParsedTable" where
  "parseGrowthCsv N content =
     (let lines = nonBlankLines content in
      if length lines < 3 then Inr emptyTable
      else
        let cols = columns lines;
            sexIndex = findIndex (\<lambda>name. name = sexMarker) cols;
            monthIndex = findIndex (\<lambda>name. jsIncludes name monthMarker) cols
        in if sexIndex < 0 \<or> monthIndex < 0 then Inr emptyTable
           else
             let pcs = percentileColumns cols
             in case forEach (processRow N sexIndex monthIndex pcs) (drop 2 lines) Map.empty of
                  Inl e \<Rightarrow> Inl e
                | Inr table \<Rightarrow>
                    Inr \<lparr>table_percentiles = map column_name pcs, bySex = table\<rparr>)"

text \<open>
  The shape every curve of the parser has, for percentile columns \<open>pcs\<close>: an array
  under each column name and under no other, holding one value per row and per column
  of that name.
\<close>

definition curveShape :: "Column list \<Rightarrow> GrowthCurve \<Rightarrow> bool" where
  "curveShape pcs e =
     (\<forall>n. if n \<in> set (map column_name pcs)
          then \<exists>arr. percentiles e n = Some arr \<and>
                 length arr = count_list (map column_name pcs) n * length (ages e)
          else percentiles e n = None)"

section \<open>Sample tables\<close>

text \<open>
  A number format to evaluate the parser with: \<open>readInteger\<close> reads a decimal
  integer numeral as \<open>Number.parseInt(s, 10)\<close> does (leading white space, an
  optional sign, the digits up to the first other character, \<open>NaN\<close> without a
  digit), and \<open>writeInteger\<close> writes an integer as \<open>String\<close> does.  The cells
  of the sample tables are short integer numerals, on which \<open>Number.parseFloat\<close>
  reads the same value.
\<close>

definition readInteger :: "jsstring option \<Rightarrow> jsnum" where
  "readInteger raw =
     (case raw of
        None \<Rightarrow> NaN
      | Some s \<Rightarrow>
          (let t = dropWhile isWhiteSpace s;
               signed = (t \<noteq> [] \<and> (hd t = 45 \<or> hd t = 43));
               ds = takeWhile isDigit (if signed then tl t else t)
           in if ds = [] then NaN
              else if signed \<and> hd t = 45 then Fin (- real_of_int (parseInt10 ds))
              else Fin (real_of_int (parseInt10 ds))))"

function digitsOf :: "nat \<Rightarrow> jsstring" where
  "digitsOf n = (if n < 10 then [48 + n] else digitsOf (n div 10) @ [48 + n mod 10])"
  by pat_completeness auto
termination
  by (relation "measure id") auto

declare digitsOf.simps [simp del]

definition writeInteger :: "jsnum \<Rightarrow> jsstring" where
  "writeInteger n =
     (case n of
        Fin r \<Rightarrow> if r < 0 then 45 # digitsOf (nat \<lfloor>- r\<rfloor>) else digitsOf (nat \<lfloor>r\<rfloor>)
      | PosInf \<Rightarrow> utf16 ''Infinity''
      | NegInf \<Rightarrow> utf16 ''-Infinity''
      | NaN \<Rightarrow> utf16 ''NaN'')"

definition integerFormat :: NumberFormat where
  "integerFormat =
     \<lparr>parseInt = readInteger, parseFloat = readInteger, numberToString = writeInteger\<rparr>"

text \<open>
  Three texts: a table with the percentile columns 3rd and 50th and rows for both sexes;
  a table whose two percentile columns both carry the label 3rd; a text whose header has
  neither the sex nor the age column.
\<close>

definition sampleCsv :: jsstring where
  "sampleCsv =
     sexMarker @ utf16 '','' @ monthMarker @ utf16 ''),3rd,50th'' @ [13, 10] @
     utf16 '',,,'' @ [10] @
     utf16 ''1,0,46,50'' @ [10] @
     utf16 ''1,1,50,x'' @ [10] @
     utf16 ''2,0,45,49''"

definition duplicateLabelCsv :: jsstring where
  "duplicateLabelCsv =
     sexMarker @ utf16 '','' @ monthMarker @ utf16 ''),3rd,3rd'' @ [10] @
     utf16 '',,,'' @ [10] @
     utf16 ''1,0,50,51''"

definition noColumnsCsv :: jsstring where
  "noColumnsCsv = utf16 ''age,3rd'' @ [10] @ utf16 '','' @ [10] @ utf16 ''1,50''"

text \<open>What the parser returns on the first two texts.\<close>

definition sampleCurve1 :: GrowthCurve where
  "sampleCurve1 =
     \<lparr>ages = [Fin 0, Fin 1],
      percentiles = [utf16 ''3rd'' \<mapsto> [Fin 46, Fin 50],
                     utf16 ''50th'' \<mapsto> [Fin 50, NaN]]\<rparr>"

definition sampleCurve2 :: GrowthCurve where
  "sampleCurve2 =
     \<lparr>ages = [Fin 0],
      percentiles = [utf16 ''3rd'' \<mapsto> [Fin 45], utf16 ''50th'' \<mapsto> [Fin 49]]\<rparr>"

definition sampleTable :: ParsedTable where
  "sampleTable =
     \<lparr>table_percentiles = [utf16 ''3rd'', utf16 ''50th''],
      bySex = [utf16 ''1'' \<mapsto> sampleCurve1, utf16 ''2'' \<mapsto> sampleCurve2]\<rparr>"

definition duplicateLabelCurve :: GrowthCurve where
  "duplicateLabelCurve =
     \<lparr>ages = [Fin 0], percentiles = [utf16 ''3rd'' \<mapsto> [Fin 50, Fin 51]]\<rparr>"

definition duplicateLabelTable :: ParsedTable where
  "duplicateLabelTable =
     \<lparr>table_percentiles = [utf16 ''3rd'', utf16 ''3rd''],
      bySex = [utf16 ''1'' \<mapsto> duplicateLabelCurve]\<rparr>"

section \<open>Properties of the resident identifier parser\<close>

lemma daysInMonth_bounds: "28 \<le> daysInMonth y m \<and> daysInMonth y m \<le> 31"
  by (simp add: daysInMonth_def)

lemma rollDate_in_month:
  "1 \<le> d \<Longrightarrow> d \<le> daysInMonth y m \<Longrightarrow>
   rollDate y m d = \<lparr>getFullYear = y, getMonth = m, getDate = d\<rparr>"
  by (subst rollDate.simps) simp

lemma rollDate_overflow:
  assumes "daysInMonth y m < d" "d \<le> 31"
  shows "getDate (rollDate y m d) = d - daysInMonth y m"
proof -
  define k where "k = d - daysInMonth y m"
  have k: "1 \<le> k" "k \<le> 3"
    using assms daysInMonth_bounds [of y m] by (simp_all add: k_def)
  have fits: "rollDate y' m' k = \<lparr>getFullYear = y', getMonth = m', getDate = k\<rparr>" for y' m'
    using k daysInMonth_bounds [of y' m'] by (intro rollDate_in_month) linarith+
  have "rollDate y m d = (if m = 11 then rollDate (y + 1) 0 k else rollDate y (m + 1) k)"
    using assms by (subst rollDate.simps) (simp add: k_def)
  then have "getDate (rollDate y m d) = k"
    by (simp add: fits)
  then show ?thesis
    by (simp add: k_def)
qed

lemma newDate_roundtrip:
  assumes "100 \<le> year" "1 \<le> mm" "mm \<le> 12" "1 \<le> dd" "dd \<le> 31"
  shows "(newDate year (mm - 1) dd =
            \<lparr>getFullYear = year, getMonth = mm - 1, getDate = dd\<rparr>)
         = calendarDate year mm dd"
proof -
  have nd: "newDate year (mm - 1) dd = rollDate year (mm - 1) dd"
    using assms by (simp add: newDate_def)
  show ?thesis
  proof (cases "dd \<le> daysInMonth year (mm - 1)")
    case True
    then show ?thesis
      using assms by (simp add: nd rollDate_in_month calendarDate_def)
  next
    case False
    then have "getDate (rollDate year (mm - 1) dd) = dd - daysInMonth year (mm - 1)"
      using assms by (simp add: rollDate_overflow)
    moreover have "0 < daysInMonth year (mm - 1)"
      using daysInMonth_bounds [of year "mm - 1"] by linarith
    ultimately have "getDate (newDate year (mm - 1) dd) \<noteq> dd"
      by (simp add: nd)
    then have "newDate year (mm - 1) dd \<noteq>
            \<lparr>getFullYear = year, getMonth = mm - 1, getDate = dd\<rparr>"
      by auto
    then show ?thesis
      using False by (simp add: calendarDate_def)
  qed
qed

lemma normalizeResidentId_digits: "c \<in> set (normalizeResidentId v) \<Longrightarrow> isDigit c"
  by (simp add: normalizeResidentId_def)

lemma parseInt10_pair: "parseInt10 [a, b] = 10 * (int a - 48) + (int b - 48)"
  by (simp add: parseInt10_def)

lemma slice_pair:
  "i + 1 < length s \<Longrightarrow> slice i (i + 2) s = [s ! i, s ! (i + 1)]"
proof -
  assume a: "i + 1 < length s"
  then have "drop i s = s ! i # s ! (i + 1) # drop (i + 2) s"
    by (simp add: Cons_nth_drop_Suc)
  then show ?thesis
    by (simp add: slice_def)
qed

lemma parseInt10_slice:
  "j = i + 2 \<Longrightarrow> i + 1 < length s \<Longrightarrow> parseInt10 (slice i j s) = field2 s i"
  by (simp only: slice_pair parseInt10_pair field2_def)

lemma field2_range:
  assumes "isDigit (s ! i)" "isDigit (s ! (i + 1))"
  shows "0 \<le> field2 s i \<and> field2 s i \<le> 99"
  using assms by (simp add: field2_def isDigit_def)

lemma centuryMap_Some:
  "centuryMap g = Some c \<longleftrightarrow>
     (g \<in> set (utf16 ''1256'') \<and> c = 1900) \<or>
     (g \<in> set (utf16 ''3478'') \<and> c = 2000)"
  by (simp add: centuryMap_def utf16_def)

lemma jsdate_fields_eq:
  "(getFullYear b \<noteq> y \<or> getMonth b \<noteq> m \<or> getDate b \<noteq> d) =
   (b \<noteq> \<lparr>getFullYear = y, getMonth = m, getDate = d\<rparr>)"
  by (cases b) auto

lemma parseResidentId_unfold:
  assumes digits: "normalizeResidentId value = digits" and len: "length digits = 13"
  shows "parseResidentId value ref =
     (case centuryMap (digits ! 6) of
        None \<Rightarrow> None
      | Some century \<Rightarrow>
          if calendarDate (century + field2 digits 0) (field2 digits 2) (field2 digits 4)
          then (let b = \<lparr>getFullYear = century + field2 digits 0,
                           getMonth = field2 digits 2 - 1,
                           getDate = field2 digits 4\<rparr>;
                    months = getAgeMonths b ref
                in if months < 0 then None else Some \<lparr>birth = b, ageMonths = months\<rparr>)
          else None)"
proof -
  have yy: "parseInt10 (slice 0 2 digits) = field2 digits 0"
    using len by (intro parseInt10_slice) simp_all
  have mm: "parseInt10 (slice 2 4 digits) = field2 digits 2"
    using len by (intro parseInt10_slice) simp_all
  have dd: "parseInt10 (slice 4 6 digits) = field2 digits 4"
    using len by (intro parseInt10_slice) simp_all
  have "isDigit (digits ! 0)" "isDigit (digits ! 1)"
    using len normalizeResidentId_digits [of _ "value"] by (simp_all add: digits)
  then have yy_range: "0 \<le> field2 digits 0"
    using field2_range [of digits 0] by simp
  show ?thesis
  proof (cases "centuryMap (digits ! 6)")
    case None
    then show ?thesis
      using digits len by (simp add: parseResidentId_def)
  next
    case (Some century)
    then have cent: "century = 1900 \<or> century = 2000"
      by (auto simp: centuryMap_Some)
    then have year: "100 \<le> century + field2 digits 0" and nz: "century \<noteq> 0"
      using yy_range by auto
    let ?y = "century + field2 digits 0"
    let ?m = "field2 digits 2"
    let ?d = "field2 digits 4"
    show ?thesis
    proof (cases "?m < 1 \<or> ?m > 12 \<or> ?d < 1 \<or> ?d > 31")
      case True
      then have "\<not> calendarDate ?y ?m ?d"
        using daysInMonth_bounds [of ?y "?m - 1"] by (auto simp: calendarDate_def)
      then show ?thesis
        using True Some digits len by (simp add: parseResidentId_def yy mm dd)
    next
      case False
      then have rt: "(newDate ?y (?m - 1) ?d =
            \<lparr>getFullYear = ?y, getMonth = ?m - 1, getDate = ?d\<rparr>) = calendarDate ?y ?m ?d"
        using year by (intro newDate_roundtrip) auto
      show ?thesis
      proof (cases "calendarDate ?y ?m ?d")
        case True
        then show ?thesis
          using False Some digits len nz rt
          by (simp add: parseResidentId_def yy mm dd Let_def)
      next
        case no: False
        then have "newDate ?y (?m - 1) ?d \<noteq>
            \<lparr>getFullYear = ?y, getMonth = ?m - 1, getDate = ?d\<rparr>"
          using rt by simp
        then have "getFullYear (newDate ?y (?m - 1) ?d) \<noteq> ?y \<or>
                   getMonth (newDate ?y (?m - 1) ?d) \<noteq> ?m - 1 \<or>
                   getDate (newDate ?y (?m - 1) ?d) \<noteq> ?d"
          by (subst jsdate_fields_eq)
        then show ?thesis
          using False Some digits len nz no
          by (simp add: parseResidentId_def yy mm dd Let_def)
      qed
    qed
  qed
qed


lemma newDate_in_month:
  "100 \<le> y \<Longrightarrow> 0 \<le> m \<Longrightarrow> m \<le> 11 \<Longrightarrow> 1 \<le> d \<Longrightarrow> d \<le> daysInMonth y m \<Longrightarrow>
   newDate y m d = \<lparr>getFullYear = y, getMonth = m, getDate = d\<rparr>"
  by (simp add: newDate_def rollDate_in_month)

text \<open>
  C1.  For an identifier whose digits number 13, whose seventh digit has a century and
  whose year, month and day form a calendar date, \<open>parseResidentId\<close> yields the
  age (reference year - birth year) * 12 + (reference month - birth month), less 1 when
  the reference day of the month is below the birth day, and yields nothing when that
  number is negative.  For the digits 9901011 followed by any six digits (written with
  the hyphen, which is stripped) and the reference date 2024-06-15, the age is 305.
\<close>

theorem parseResidentId_age_in_months:
  "(normalizeResidentId value = digits \<and> length digits = 13 \<and>
    centuryMap (digits ! 6) = Some century \<and>
    calendarDate (century + field2 digits 0) (field2 digits 2) (field2 digits 4) \<and>
    months = (getFullYear ref - (century + field2 digits 0)) * 12 +
             (getMonth ref + 1 - field2 digits 2) -
             (if getDate ref < field2 digits 4 then 1 else 0)
    \<longrightarrow> (months < 0 \<longrightarrow> parseResidentId value ref = None) \<and>
        (0 \<le> months \<longrightarrow> map_option ageMonths (parseResidentId value ref) = Some months))
   \<and>
   (length rest = 6 \<and> list_all isDigit rest \<longrightarrow>
      map_option ageMonths
        (parseResidentId (utf16 ''990101-1'' @ rest) (newDate 2024 (6 - 1) 15)) = Some 305)"
proof (intro conjI impI)
  assume h: "normalizeResidentId value = digits \<and> length digits = 13 \<and>
    centuryMap (digits ! 6) = Some century \<and>
    calendarDate (century + field2 digits 0) (field2 digits 2) (field2 digits 4) \<and>
    months = (getFullYear ref - (century + field2 digits 0)) * 12 +
             (getMonth ref + 1 - field2 digits 2) -
             (if getDate ref < field2 digits 4 then 1 else 0)"
  let ?b = "\<lparr>getFullYear = century + field2 digits 0,
              getMonth = field2 digits 2 - 1, getDate = field2 digits 4\<rparr>"
  have age: "getAgeMonths ?b ref = months"
    using h by (simp add: getAgeMonths_def Let_def)
  have parse: "parseResidentId value ref =
        (if months < 0 then None else Some \<lparr>birth = ?b, ageMonths = months\<rparr>)"
    using h by (simp add: parseResidentId_unfold [of "value" digits] age Let_def)
  { assume "months < 0"
    then show "parseResidentId value ref = None"
      by (simp add: parse) }
  { assume "0 \<le> months"
    then show "map_option ageMonths (parseResidentId value ref) = Some months"
      by (simp add: parse) }
next
  assume r: "length rest = 6 \<and> list_all isDigit rest"
  let ?digits = "utf16 ''9901011'' @ rest"
  have norm: "normalizeResidentId (utf16 ''990101-1'' @ rest) = ?digits"
    using r by (simp add: normalizeResidentId_def utf16_def isDigit_def list_all_iff)
  have len: "length ?digits = 13"
    using r by (simp add: utf16_def)
  have cent: "centuryMap (?digits ! 6) = Some 1900"
    by (simp add: utf16_def centuryMap_def nth_append)
  have f: "field2 ?digits 0 = 99" "field2 ?digits 2 = 1" "field2 ?digits 4 = 1"
    by (simp_all add: field2_def utf16_def nth_append)
  have ref: "newDate 2024 5 15 = \<lparr>getFullYear = 2024, getMonth = 5, getDate = 15\<rparr>"
    by (simp add: newDate_in_month daysInMonth_def)
  show "map_option ageMonths
        (parseResidentId (utf16 ''990101-1'' @ rest) (newDate 2024 (6 - 1) 15)) = Some 305"
    by (simp add: parseResidentId_unfold [OF norm len] cent f ref calendarDate_def
        daysInMonth_def getAgeMonths_def)
qed

theorem parseResidentId_age_in_months_witness:
  "map_option ageMonths
     (parseResidentId (utf16 ''990101-1234567'')
        \<lparr>getFullYear = 2024, getMonth = 5, getDate = 15\<rparr>) = Some 305 \<and>
   map_option ageMonths
     (parseResidentId (utf16 ''990101-1234567'') (newDate 2024 (6 - 1) 15)) = Some 305 \<and>
   map_option ageMonths
     (parseResidentId (utf16 ''200229-4000000'')
        \<lparr>getFullYear = 2024, getMonth = 1, getDate = 28\<rparr>) = Some 47 \<and>
   parseResidentId (utf16 ''240616-3000000'')
        \<lparr>getFullYear = 2024, getMonth = 5, getDate = 15\<rparr> = None"
  using parseResidentId_age_in_months
          [of "utf16 ''990101-1234567''" "utf16 ''9901011234567''" 1900 305
              "\<lparr>getFullYear = 2024, getMonth = 5, getDate = 15\<rparr>" "utf16 ''234567''"]
        parseResidentId_age_in_months
          [of "utf16 ''200229-4000000''" "utf16 ''2002294000000''" 2000 47
              "\<lparr>getFullYear = 2024, getMonth = 1, getDate = 28\<rparr>" "[]"]
        parseResidentId_age_in_months
          [of "utf16 ''240616-3000000''" "utf16 ''2406163000000''" 2000 "-1"
              "\<lparr>getFullYear = 2024, getMonth = 5, getDate = 15\<rparr>" "[]"]
  by (simp add: utf16_def normalizeResidentId_def isDigit_def centuryMap_def field2_def
      calendarDate_def daysInMonth_def isLeapYear_def)


lemma parseResidentId_None_short:
  "length (normalizeResidentId value) \<noteq> 13 \<Longrightarrow> parseResidentId value ref = None"
  by (simp add: parseResidentId_def)

text \<open>
  C2.  Whenever \<open>parseResidentId\<close> accepts an identifier, its digits number 13 and
  the birth year is 1900 + YY for a seventh digit among 1, 2, 5, 6 and 2000 + YY for one
  among 3, 4, 7, 8; an identifier whose seventh digit is none of these eight is rejected.
\<close>

theorem parseResidentId_century:
  "(normalizeResidentId value = digits \<and> parseResidentId value ref = Some info \<longrightarrow>
      length digits = 13 \<and>
      (digits ! 6 \<in> set (utf16 ''1256'') \<longrightarrow>
         getFullYear (birth info) = 1900 + field2 digits 0) \<and>
      (digits ! 6 \<in> set (utf16 ''3478'') \<longrightarrow>
         getFullYear (birth info) = 2000 + field2 digits 0))
   \<and>
   (normalizeResidentId value = digits \<and>
    digits ! 6 \<notin> set (utf16 ''12345678'') \<longrightarrow>
      parseResidentId value ref = None)"
proof (intro conjI impI)
  assume h: "normalizeResidentId value = digits \<and> parseResidentId value ref = Some info"
  then show len: "length digits = 13"
    using parseResidentId_None_short [of "value" ref] by auto
  from h obtain century where
    c: "centuryMap (digits ! 6) = Some century" and
    y: "getFullYear (birth info) = century + field2 digits 0"
    using parseResidentId_unfold [of "value" digits ref] len
    by (auto simp: Let_def split: option.splits if_splits)
  { assume "digits ! 6 \<in> set (utf16 ''1256'')"
    then have "century = 1900"
      using c by (auto simp: centuryMap_Some utf16_def)
    then show "getFullYear (birth info) = 1900 + field2 digits 0"
      using y by simp }
  { assume "digits ! 6 \<in> set (utf16 ''3478'')"
    then have "century = 2000"
      using c by (auto simp: centuryMap_Some utf16_def)
    then show "getFullYear (birth info) = 2000 + field2 digits 0"
      using y by simp }
next
  assume h: "normalizeResidentId value = digits \<and>
    digits ! 6 \<notin> set (utf16 ''12345678'')"
  then have none: "centuryMap (digits ! 6) = None"
    by (simp add: centuryMap_def utf16_def)
  show "parseResidentId value ref = None"
  proof (cases "length digits = 13")
    case True
    then show ?thesis
      using h none by (simp add: parseResidentId_unfold [of "value" digits])
  next
    case False
    then show ?thesis
      using h by (simp add: parseResidentId_None_short)
  qed
qed

theorem parseResidentId_century_witness:
  "parseResidentId (utf16 ''990101-1234567'')
     \<lparr>getFullYear = 2024, getMonth = 5, getDate = 15\<rparr> =
     Some \<lparr>birth = \<lparr>getFullYear = 1999, getMonth = 0, getDate = 1\<rparr>, ageMonths = 305\<rparr> \<and>
   getFullYear \<lparr>getFullYear = 1999, getMonth = 0, getDate = 1\<rparr> = 1900 + 99 \<and>
   parseResidentId (utf16 ''150820-4234567'')
     \<lparr>getFullYear = 2024, getMonth = 5, getDate = 15\<rparr> =
     Some \<lparr>birth = \<lparr>getFullYear = 2015, getMonth = 7, getDate = 20\<rparr>, ageMonths = 105\<rparr> \<and>
   getFullYear \<lparr>getFullYear = 2015, getMonth = 7, getDate = 20\<rparr> = 2000 + 15 \<and>
   parseResidentId (utf16 ''990101-9234567'')
     \<lparr>getFullYear = 2024, getMonth = 5, getDate = 15\<rparr> = None \<and>
   parseResidentId (utf16 ''990101-0234567'')
     \<lparr>getFullYear = 2024, getMonth = 5, getDate = 15\<rparr> = None"
proof -
  let ?ref = "\<lparr>getFullYear = 2024, getMonth = 5, getDate = 15\<rparr>"
  have a: "parseResidentId (utf16 ''990101-1234567'') ?ref =
     Some \<lparr>birth = \<lparr>getFullYear = 1999, getMonth = 0, getDate = 1\<rparr>, ageMonths = 305\<rparr>"
    by (simp add: parseResidentId_unfold [of _ "utf16 ''9901011234567''"] utf16_def
        normalizeResidentId_def isDigit_def centuryMap_def field2_def calendarDate_def
        daysInMonth_def getAgeMonths_def)
  have b: "parseResidentId (utf16 ''150820-4234567'') ?ref =
     Some \<lparr>birth = \<lparr>getFullYear = 2015, getMonth = 7, getDate = 20\<rparr>, ageMonths = 105\<rparr>"
    by (simp add: parseResidentId_unfold [of _ "utf16 ''1508204234567''"] utf16_def
        normalizeResidentId_def isDigit_def centuryMap_def field2_def calendarDate_def
        daysInMonth_def getAgeMonths_def)
  show ?thesis
    using parseResidentId_century [of "utf16 ''990101-1234567''" "utf16 ''9901011234567''" ?ref
            "\<lparr>birth = \<lparr>getFullYear = 1999, getMonth = 0, getDate = 1\<rparr>, ageMonths = 305\<rparr>"]
          parseResidentId_century [of "utf16 ''150820-4234567''" "utf16 ''1508204234567''" ?ref
            "\<lparr>birth = \<lparr>getFullYear = 2015, getMonth = 7, getDate = 20\<rparr>, ageMonths = 105\<rparr>"]
          parseResidentId_century [of "utf16 ''990101-9234567''" "utf16 ''9901019234567''" ?ref]
          parseResidentId_century [of "utf16 ''990101-0234567''" "utf16 ''9901010234567''" ?ref]
          a b
    by (simp add: utf16_def normalizeResidentId_def isDigit_def field2_def)
qed

text \<open>
  C3.  A 13-digit identifier is rejected when its month field lies outside 1..12, its day
  field outside 1..31, or its year, month and day (for whatever century its seventh
  digit stands for) form no calendar date.  The test the function applies, that the
  constructed date reads back the year, month and day it was built from, holds exactly
  for the calendar dates.
\<close>

theorem parseResidentId_rejects_impossible_dates:
  "(normalizeResidentId value = digits \<and> length digits = 13 \<and>
     (field2 digits 2 < 1 \<or> 12 < field2 digits 2 \<or>
      field2 digits 4 < 1 \<or> 31 < field2 digits 4 \<or>
      (\<forall>century. centuryMap (digits ! 6) = Some century \<longrightarrow>
         \<not> calendarDate (century + field2 digits 0) (field2 digits 2) (field2 digits 4)))
    \<longrightarrow> parseResidentId value ref = None)
   \<and>
   (100 \<le> year \<and> 1 \<le> mm \<and> mm \<le> 12 \<and> 1 \<le> dd \<and> dd \<le> 31 \<longrightarrow>
      (getFullYear (newDate year (mm - 1) dd) = year \<and>
       getMonth (newDate year (mm - 1) dd) = mm - 1 \<and>
       getDate (newDate year (mm - 1) dd) = dd) = calendarDate year mm dd)"
proof (intro conjI impI)
  assume h: "normalizeResidentId value = digits \<and> length digits = 13 \<and>
     (field2 digits 2 < 1 \<or> 12 < field2 digits 2 \<or>
      field2 digits 4 < 1 \<or> 31 < field2 digits 4 \<or>
      (\<forall>century. centuryMap (digits ! 6) = Some century \<longrightarrow>
         \<not> calendarDate (century + field2 digits 0) (field2 digits 2) (field2 digits 4)))"
  have bad: "\<not> calendarDate (c + field2 digits 0) (field2 digits 2) (field2 digits 4)"
    if "centuryMap (digits ! 6) = Some c" for c
    using h that daysInMonth_bounds [of "c + field2 digits 0" "field2 digits 2 - 1"]
    by (auto simp: calendarDate_def)
  show "parseResidentId value ref = None"
    using h bad by (simp add: parseResidentId_unfold [of "value" digits] split: option.splits)
next
  assume h: "100 \<le> year \<and> 1 \<le> mm \<and> mm \<le> 12 \<and> 1 \<le> dd \<and> dd \<le> 31"
  have "(getFullYear (newDate year (mm - 1) dd) = year \<and>
       getMonth (newDate year (mm - 1) dd) = mm - 1 \<and>
       getDate (newDate year (mm - 1) dd) = dd) =
       (newDate year (mm - 1) dd = \<lparr>getFullYear = year, getMonth = mm - 1, getDate = dd\<rparr>)"
    using jsdate_fields_eq [of "newDate year (mm - 1) dd" year "mm - 1" dd] by blast
  then show "(getFullYear (newDate year (mm - 1) dd) = year \<and>
       getMonth (newDate year (mm - 1) dd) = mm - 1 \<and>
       getDate (newDate year (mm - 1) dd) = dd) = calendarDate year mm dd"
    using h newDate_roundtrip [of year mm dd] by simp
qed

theorem parseResidentId_rejects_impossible_dates_witness:
  "parseResidentId (utf16 ''990230-1234567'')
     \<lparr>getFullYear = 2024, getMonth = 5, getDate = 15\<rparr> = None \<and>
   parseResidentId (utf16 ''040230-3234567'')
     \<lparr>getFullYear = 2024, getMonth = 5, getDate = 15\<rparr> = None \<and>
   parseResidentId (utf16 ''991301-2234567'')
     \<lparr>getFullYear = 2024, getMonth = 5, getDate = 15\<rparr> = None \<and>
   parseResidentId (utf16 ''990100-5234567'')
     \<lparr>getFullYear = 2024, getMonth = 5, getDate = 15\<rparr> = None \<and>
   \<not> calendarDate 1999 2 30 \<and>
   \<not> (getFullYear (newDate 1999 (2 - 1) 30) = 1999 \<and>
      getMonth (newDate 1999 (2 - 1) 30) = 2 - 1 \<and>
      getDate (newDate 1999 (2 - 1) 30) = 30) \<and>
   calendarDate 2004 2 29 \<and>
   getDate (newDate 2004 (2 - 1) 29) = 29"
  using parseResidentId_rejects_impossible_dates
          [of "utf16 ''990230-1234567''" "utf16 ''9902301234567''"
              "\<lparr>getFullYear = 2024, getMonth = 5, getDate = 15\<rparr>" 1999 2 30]
        parseResidentId_rejects_impossible_dates
          [of "utf16 ''040230-3234567''" "utf16 ''0402303234567''"
              "\<lparr>getFullYear = 2024, getMonth = 5, getDate = 15\<rparr>" 2004 2 29]
        parseResidentId_rejects_impossible_dates
          [of "utf16 ''991301-2234567''" "utf16 ''9913012234567''"
              "\<lparr>getFullYear = 2024, getMonth = 5, getDate = 15\<rparr>" 2004 2 29]
        parseResidentId_rejects_impossible_dates
          [of "utf16 ''990100-5234567''" "utf16 ''9901005234567''"
              "\<lparr>getFullYear = 2024, getMonth = 5, getDate = 15\<rparr>" 2004 2 29]
  by (simp add: utf16_def normalizeResidentId_def isDigit_def centuryMap_def field2_def
      calendarDate_def daysInMonth_def isLeapYear_def)

section \<open>Properties of the visit deltas\<close>

lemma diffDays_int:
  "diffDays s e = max 1 ((2 * (e - s) + 86400000) div 172800000)"
proof -
  have "real_of_int (e - s) / 86400000 + 1 / 2 =
        real_of_int (2 * (e - s) + 86400000) / real_of_int 172800000"
    by (simp add: field_simps)
  then have "\<lfloor>real_of_int (e - s) / 86400000 + 1 / 2\<rfloor> =
        (2 * (e - s) + 86400000) div 172800000"
    by (simp only: floor_divide_of_int_eq)
  then show ?thesis
    by (simp add: diffDays_def Math_round_def)
qed

text \<open>
  C8.  The elapsed-days figure is the nearest whole number of days between the two
  timestamps (a half rounding up), raised to 1 when it is smaller.  It is never below 1,
  and it is exactly 1 whenever the current visit lies less than a day and a half after
  the previous one (or before it), which covers every pair of timestamps on one
  calendar day.
\<close>

theorem diffDays_at_least_one_day:
  "diffDays s e = max 1 (round (real_of_int (e - s) / 86400000)) \<and>
   1 \<le> diffDays s e \<and>
   (e - s < 129600000 \<longrightarrow> diffDays s e = 1)"
proof (intro conjI impI)
  show "diffDays s e = max 1 (round (real_of_int (e - s) / 86400000))"
    by (simp add: diffDays_def Math_round_def round_def)
  show "1 \<le> diffDays s e"
    by (simp add: diffDays_def)
next
  assume near: "e - s < 129600000"
  then have "2 * (e - s) + 86400000 \<le> 345599999"
    by simp
  then have "(2 * (e - s) + 86400000) div 172800000 \<le> 345599999 div 172800000"
    by (rule zdiv_mono1) simp
  then have "(2 * (e - s) + 86400000) div 172800000 \<le> 1"
    by simp
  then show "diffDays s e = 1"
    by (simp add: diffDays_int)
qed

theorem diffDays_at_least_one_day_witness:
  "diffDays 1718420400000 1718420400000 = 1 \<and>
   diffDays 1718420400000 1718463600000 = 1 \<and>
   diffDays 1718420400000 1718679600000 = max 1 (round (259200000 / (86400000 :: real)))"
  using diffDays_at_least_one_day [of 1718420400000 1718420400000]
        diffDays_at_least_one_day [of 1718420400000 1718463600000]
        diffDays_at_least_one_day [of 1718420400000 1718679600000]
  by simp

section \<open>Properties of the chart geometry and the injection events\<close>

lemma Math_min_const:
  "xs \<noteq> [] \<Longrightarrow> \<forall>x\<in>set xs. x = Fin m \<Longrightarrow> Math_min xs = Fin m"
proof (induction xs)
  case Nil
  then show ?case by simp
next
  case (Cons a xs)
  show ?case
  proof (cases "xs = []")
    case True
    with Cons.prems show ?thesis
      by (simp add: Math_min_def min2_def)
  next
    case False
    with Cons have "Math_min xs = Fin m"
      by simp
    with Cons.prems show ?thesis
      by (simp add: Math_min_def min2_def)
  qed
qed

lemma Math_max_const:
  "xs \<noteq> [] \<Longrightarrow> \<forall>x\<in>set xs. x = Fin m \<Longrightarrow> Math_max xs = Fin m"
proof (induction xs)
  case Nil
  then show ?case by simp
next
  case (Cons a xs)
  show ?case
  proof (cases "xs = []")
    case True
    with Cons.prems show ?thesis
      by (simp add: Math_max_def max2_def)
  next
    case False
    with Cons have "Math_max xs = Fin m"
      by simp
    with Cons.prems show ?thesis
      by (simp add: Math_max_def max2_def)
  qed
qed

lemma singleton_set_list:
  assumes "set xs = {a}"
  shows "xs \<noteq> []" and "\<forall>x\<in>set xs. x = a"
proof -
  have "a \<in> set xs"
    by (simp add: assms)
  then show "xs \<noteq> []"
    by (cases xs) simp_all
  show "\<forall>x\<in>set xs. x = a"
    by (simp add: assms)
qed

lemma xDomain_single:
  assumes "xRange p = None" "set (allX p) = {Fin m}"
  shows "xMin p = Fin m \<and> xMax p = Fin (m + 1)"
proof -
  have ne: "allX p \<noteq> []" and all: "\<forall>x\<in>set (allX p). x = Fin m"
    using singleton_set_list [OF assms(2)] by blast+
  have lo: "Math_min (allX p) = Fin m" and hi: "Math_max (allX p) = Fin m"
    using ne all by (simp_all add: Math_min_const Math_max_const)
  show ?thesis
    using assms(1) by (simp add: xMin_def xMax_def lo hi)
qed

lemma yDomain_single:
  assumes "set (allY p) = {Fin v}"
  shows "yRange p = Fin 1 \<and> pad p = Fin (18 / 100 * 1) \<and>
         yMin p = Fin (v - 18 / 100 * 1) \<and> yMax p = Fin (v + 18 / 100 * 1)"
proof -
  have ne: "allY p \<noteq> []" and all: "\<forall>x\<in>set (allY p). x = Fin v"
    using singleton_set_list [OF assms] by blast+
  have lo: "Math_min (allY p) = Fin v" and hi: "Math_max (allY p) = Fin v"
    using ne all by (simp_all add: Math_min_const Math_max_const)
  have r: "yRange p = Fin 1"
    by (simp add: yRange_def lo hi jsSub_def)
  then have pd: "pad p = Fin (18 / 100)"
    by (simp add: pad_def)
  show ?thesis
    by (simp add: r pd yMin_def yMax_def lo hi jsSub_def)
qed

lemma MetricChart_Svg:
  "hasRenderableData p \<Longrightarrow>
   \<exists>s. MetricChart p = Svg s \<and> scene_xMin s = xMin p \<and> scene_xMax s = xMax p \<and>
       scene_min s = yMin p \<and> scene_max s = yMax p \<and>
       scene_curves s = map curveElement (curvePaths p) \<and>
       scene_events s = map (eventMarker p) (case events p of None \<Rightarrow> [] | Some es \<Rightarrow> es)"
  by (simp add: MetricChart_def)

text \<open>
  C6.  With no explicit x-range, when all the finite x-values supplied (visit points,
  reference points, highlight point, events) are one value \<open>m\<close>, the x-domain is
  \<open>m\<close> to \<open>m + 1\<close>.  When all the finite y-values are one value \<open>v\<close>, the
  range is taken as 1, the padding is 18 percent of it, and the y-domain is
  \<open>v - 0.18\<close> to \<open>v + 0.18\<close>.
\<close>

theorem degenerate_domains_are_widened:
  "(hasRenderableData p \<and> xRange p = None \<and> set (allX p) = {Fin m} \<longrightarrow>
      (\<exists>s. MetricChart p = Svg s \<and> scene_xMin s = Fin m \<and> scene_xMax s = Fin (m + 1)))
   \<and>
   (hasRenderableData p \<and> set (allY p) = {Fin v} \<longrightarrow>
      yRange p = Fin 1 \<and> pad p = Fin (18 / 100 * 1) \<and>
      (\<exists>s. MetricChart p = Svg s \<and>
           scene_min s = Fin (v - 18 / 100 * 1) \<and> scene_max s = Fin (v + 18 / 100 * 1)))"
proof (intro conjI impI)
  assume h: "hasRenderableData p \<and> xRange p = None \<and> set (allX p) = {Fin m}"
  then obtain s where s: "MetricChart p = Svg s" "scene_xMin s = xMin p" "scene_xMax s = xMax p"
    using MetricChart_Svg [of p] by blast
  moreover have "xMin p = Fin m \<and> xMax p = Fin (m + 1)"
    using h by (intro xDomain_single) simp_all
  ultimately show
    "\<exists>s. MetricChart p = Svg s \<and> scene_xMin s = Fin m \<and> scene_xMax s = Fin (m + 1)"
    by simp
next
  assume h: "hasRenderableData p \<and> set (allY p) = {Fin v}"
  then have y: "yRange p = Fin 1 \<and> pad p = Fin (18 / 100 * 1) \<and>
         yMin p = Fin (v - 18 / 100 * 1) \<and> yMax p = Fin (v + 18 / 100 * 1)"
    by (intro yDomain_single) simp
  then show "yRange p = Fin 1" and "pad p = Fin (18 / 100 * 1)"
    by blast+
  from h obtain s where s: "MetricChart p = Svg s" "scene_min s = yMin p" "scene_max s = yMax p"
    using MetricChart_Svg [of p] by blast
  with y show "\<exists>s. MetricChart p = Svg s \<and>
           scene_min s = Fin (v - 18 / 100 * 1) \<and> scene_max s = Fin (v + 18 / 100 * 1)"
    by simp
qed


theorem degenerate_domains_are_widened_witness:
  "(\<exists>s. MetricChart oneVisitChart = Svg s \<and> scene_xMin s = Fin 24 \<and> scene_xMax s = Fin (24 + 1)) \<and>
   yRange oneVisitChart = Fin 1 \<and> pad oneVisitChart = Fin (18 / 100 * 1) \<and>
   (\<exists>s. MetricChart oneVisitChart = Svg s \<and>
        scene_min s = Fin (100 - 18 / 100 * 1) \<and> scene_max s = Fin (100 + 18 / 100 * 1))"
proof -
  have pts: "points oneVisitChart = [\<lparr>px = Fin 24, py = Fin 100\<rparr>]"
    by (simp add: points_def oneVisitChart_def enumerate_eq_zip)
  have "allX oneVisitChart = [Fin 24]"
    by (simp add: allX_def pts referencePoints_def) (simp add: oneVisitChart_def)
  then have x: "set (allX oneVisitChart) = {Fin 24}"
    by simp
  have "allY oneVisitChart = [Fin 100]"
    by (simp add: allY_def pts referencePoints_def) (simp add: oneVisitChart_def)
  then have y: "set (allY oneVisitChart) = {Fin 100}"
    by simp
  have r: "hasRenderableData oneVisitChart"
    by (simp add: hasRenderableData_def pts)
  have n: "xRange oneVisitChart = None"
    by (simp add: oneVisitChart_def)
  show ?thesis
    using degenerate_domains_are_widened [of oneVisitChart 24 100] x y r n by simp
qed

lemma points_events_update [simp]: "points (p\<lparr>events := es\<rparr>) = points p"
  by (simp add: points_def)

lemma referencePoints_events_update [simp]:
  "referencePoints (p\<lparr>events := es\<rparr>) = referencePoints p"
  by (simp add: referencePoints_def)

lemma hasHighlight_events_update [simp]: "hasHighlight (p\<lparr>events := es\<rparr>) = hasHighlight p"
  by (simp add: hasHighlight_def)

lemma hasRenderableData_events_update [simp]:
  "hasRenderableData (p\<lparr>events := es\<rparr>) = hasRenderableData p"
  by (simp add: hasRenderableData_def)

lemma event_x_in_allX:
  "events p = Some es \<Longrightarrow> e \<in> set es \<Longrightarrow> isFinite (event_x e) \<Longrightarrow> event_x e \<in> set (allX p)"
  by (simp add: allX_def)

text \<open>
  C10.  A chart with no finite visit point, no reference point and no finite highlight
  point renders the empty-state placeholder whatever its events are.  When there is
  renderable data and no explicit x-range, the x-domain starts at the minimum of the
  supplied x-values, among which every finite event x counts.
\<close>

theorem events_are_not_renderable_data:
  "(points p = [] \<and> referencePoints p = [] \<and> \<not> hasHighlight p \<longrightarrow>
      MetricChart (p\<lparr>events := es\<rparr>) = EmptyState)
   \<and>
   (hasRenderableData p \<and> xRange p = None \<and> events p = Some evs \<longrightarrow>
      (\<exists>s. MetricChart p = Svg s \<and> scene_xMin s = Math_min (allX p)) \<and>
      (\<forall>e\<in>set evs. isFinite (event_x e) \<longrightarrow> event_x e \<in> set (allX p)))"
proof (intro conjI impI)
  assume "points p = [] \<and> referencePoints p = [] \<and> \<not> hasHighlight p"
  then have "\<not> hasRenderableData (p\<lparr>events := es\<rparr>)"
    by (simp add: hasRenderableData_def)
  then show "MetricChart (p\<lparr>events := es\<rparr>) = EmptyState"
    by (simp add: MetricChart_def)
next
  assume h: "hasRenderableData p \<and> xRange p = None \<and> events p = Some evs"
  then obtain s where "MetricChart p = Svg s" "scene_xMin s = xMin p"
    using MetricChart_Svg [of p] by blast
  then show "\<exists>s. MetricChart p = Svg s \<and> scene_xMin s = Math_min (allX p)"
    using h by (simp add: xMin_def)
  show "\<forall>e\<in>set evs. isFinite (event_x e) \<longrightarrow> event_x e \<in> set (allX p)"
    using h by (simp add: event_x_in_allX)
qed

theorem events_are_not_renderable_data_witness:
  "MetricChart eventsOnlyChart = EmptyState \<and>
   (\<exists>s. MetricChart (oneVisitChart\<lparr>events := events eventsOnlyChart\<rparr>) = Svg s \<and>
        scene_xMin s = Fin 24 \<and> Fin 30 \<in> set (allX (oneVisitChart\<lparr>events := events eventsOnlyChart\<rparr>)))"
proof -
  let ?e = "\<lparr>event_x = Fin 30, event_label = growthLabel,
             event_type = Growth, event_offset = None\<rparr>"
  let ?p = "oneVisitChart\<lparr>events := Some [?e]\<rparr>"
  have ev: "events eventsOnlyChart = Some [?e]"
    by (simp add: eventsOnlyChart_def)
  have empty: "points eventsOnlyChart = [] \<and> referencePoints eventsOnlyChart = [] \<and>
        \<not> hasHighlight eventsOnlyChart"
    by (simp add: points_def referencePoints_def hasHighlight_def eventsOnlyChart_def)
  have upd: "eventsOnlyChart\<lparr>events := Some [?e]\<rparr> = eventsOnlyChart"
    by (simp add: eventsOnlyChart_def)
  have pts: "points oneVisitChart = [\<lparr>px = Fin 24, py = Fin 100\<rparr>]"
    by (simp add: points_def oneVisitChart_def enumerate_eq_zip)
  have r: "hasRenderableData ?p"
    by (simp add: hasRenderableData_def pts)
  have x: "allX ?p = [Fin 24, Fin 30]"
    by (simp add: allX_def pts referencePoints_def) (simp add: oneVisitChart_def)
  have n: "xRange ?p = None"
    by (simp add: oneVisitChart_def)
  have m: "Math_min [Fin 24, Fin 30] = Fin 24"
    by (simp add: Math_min_def min2_def)
  show ?thesis
    using events_are_not_renderable_data [of eventsOnlyChart "Some [?e]" "[?e]"]
          events_are_not_renderable_data [of ?p None "[?e]"]
          empty upd r x n m ev
    by simp
qed

lemma scene_curves_class:
  assumes "MetricChart p = Svg s" "c \<in> set (scene_curves s)"
  shows "element_class c = curveClass (element_key c)"
proof -
  from assms(1) have "scene_curves s = map curveElement (curvePaths p)"
    by (auto simp: MetricChart_def split: if_splits)
  with assms(2) obtain cp where "c = curveElement cp"
    by auto
  then show ?thesis
    by (simp add: curveElement_def)
qed

text \<open>
  C9.  The class of every rendered reference curve is a function of its label: the
  label 50th gives the major class, 3rd and 97th the mid class, any other label the
  plain class; two curves with one label, in whatever charts and at whatever positions,
  have one class.
\<close>

theorem curve_class_from_label:
  "(MetricChart p = Svg s \<longrightarrow>
      (\<forall>c\<in>set (scene_curves s).
         element_class c =
           (if element_key c = utf16 ''50th'' then ''chart-percentile major''
            else if element_key c = utf16 ''3rd'' \<or> element_key c = utf16 ''97th''
                 then ''chart-percentile mid''
            else ''chart-percentile'')))
   \<and>
   (MetricChart p = Svg s \<and> MetricChart p' = Svg s' \<and>
    c \<in> set (scene_curves s) \<and> c' \<in> set (scene_curves s') \<and>
    element_key c = element_key c' \<longrightarrow> element_class c = element_class c')"
proof (intro conjI impI ballI)
  fix c
  assume "MetricChart p = Svg s" "c \<in> set (scene_curves s)"
  then have "element_class c = curveClass (element_key c)"
    by (rule scene_curves_class)
  then show "element_class c =
           (if element_key c = utf16 ''50th'' then ''chart-percentile major''
            else if element_key c = utf16 ''3rd'' \<or> element_key c = utf16 ''97th''
                 then ''chart-percentile mid''
            else ''chart-percentile'')"
    by (simp add: curveClass_def)
next
  assume h: "MetricChart p = Svg s \<and> MetricChart p' = Svg s' \<and>
    c \<in> set (scene_curves s) \<and> c' \<in> set (scene_curves s') \<and>
    element_key c = element_key c'"
  then have "element_class c = curveClass (element_key c)"
       and "element_class c' = curveClass (element_key c')"
    using scene_curves_class by blast+
  with h show "element_class c = element_class c'"
    by simp
qed


lemma curvesChart_keys:
  assumes cs: "cs = sampleCurves \<or> cs = rev sampleCurves"
  shows "map path_key (curvePaths (curvesChart cs)) = map curve_key cs"
proof -
  let ?p = "curvesChart cs"
  have pts: "points ?p = []"
    by (simp add: points_def curvesChart_def)
  have sel: "highlightPoint ?p = None" "events ?p = None" "xRange ?p = None"
       "referenceCurves ?p = Some cs"
    by (simp_all add: curvesChart_def)
  have rp: "map px (referencePoints ?p) = [Fin 24, Fin 24, Fin 24, Fin 24]"
    using cs by (auto simp: referencePoints_def sel sampleCurves_def)
  have ax: "allX ?p = [Fin 24, Fin 24, Fin 24, Fin 24]"
    by (simp add: allX_def pts sel rp)
  have lo: "xMin ?p = Fin 24"
    by (simp add: xMin_def ax sel Math_min_def min2_def)
  have hi: "xMax ?p = Fin 25"
    by (simp add: xMax_def ax lo sel Math_max_def max2_def)
  have one: "map_option path_key (curvePath ?p c) = Some (curve_key c)"
    if "c \<in> set sampleCurves" for c
    using that by (auto simp: curvePath_def lo hi sampleCurves_def)
  have "map path_key (List.map_filter (curvePath ?p) ds) = map curve_key ds"
    if "set ds \<subseteq> set sampleCurves" for ds
    using that
  proof (induction ds)
    case Nil
    show ?case by (simp add: List.map_filter_simps)
  next
    case (Cons d ds)
    then have "map_option path_key (curvePath ?p d) = Some (curve_key d)"
      using one [of d] by simp
    with Cons show ?case
      by (auto simp: List.map_filter_simps split: option.splits)
  qed
  moreover have "set cs \<subseteq> set sampleCurves"
    using cs by auto
  ultimately show ?thesis
    by (simp add: curvePaths_def sel)
qed

theorem curve_class_from_label_witness:
  "(\<exists>s. MetricChart (curvesChart sampleCurves) = Svg s \<and>
        map (\<lambda>c. (element_key c, element_class c)) (scene_curves s) =
          [(utf16 ''3rd'', ''chart-percentile mid''), (utf16 ''10th'', ''chart-percentile''),
           (utf16 ''50th'', ''chart-percentile major''), (utf16 ''97th'', ''chart-percentile mid'')]) \<and>
   (\<exists>s. MetricChart (curvesChart (rev sampleCurves)) = Svg s \<and>
        map (\<lambda>c. (element_key c, element_class c)) (scene_curves s) =
          [(utf16 ''97th'', ''chart-percentile mid''), (utf16 ''50th'', ''chart-percentile major''),
           (utf16 ''10th'', ''chart-percentile''), (utf16 ''3rd'', ''chart-percentile mid'')])"
proof -
  let ?f = "\<lambda>k. if k = utf16 ''50th'' then ''chart-percentile major''
            else if k = utf16 ''3rd'' \<or> k = utf16 ''97th'' then ''chart-percentile mid''
            else ''chart-percentile''"
  have styled: "\<exists>s. MetricChart (curvesChart cs) = Svg s \<and>
        map (\<lambda>c. (element_key c, element_class c)) (scene_curves s) =
        map (\<lambda>k. (k, ?f k)) (map curve_key cs)"
    if cs: "cs = sampleCurves \<or> cs = rev sampleCurves" for cs
  proof -
    have "hasRenderableData (curvesChart cs)"
      using cs by (auto simp: hasRenderableData_def referencePoints_def curvesChart_def
          sampleCurves_def)
    then obtain s where s: "MetricChart (curvesChart cs) = Svg s"
        and sc: "scene_curves s = map curveElement (curvePaths (curvesChart cs))"
      using MetricChart_Svg [of "curvesChart cs"] by blast
    have keys: "map element_key (scene_curves s) = map curve_key cs"
      using curvesChart_keys [OF cs] by (simp add: sc curveElement_def comp_def)
    have "\<forall>c\<in>set (scene_curves s). element_class c = ?f (element_key c)"
      using curve_class_from_label [of "curvesChart cs" s] s by blast
    then have "map (\<lambda>c. (element_key c, element_class c)) (scene_curves s) =
          map (\<lambda>c. (element_key c, ?f (element_key c))) (scene_curves s)"
      by simp
    also have "\<dots> = map (\<lambda>k. (k, ?f k)) (map element_key (scene_curves s))"
      by (simp add: comp_def)
    finally show ?thesis
      using s keys by simp
  qed
  have a: "map (\<lambda>k. (k, ?f k)) (map curve_key sampleCurves) =
          [(utf16 ''3rd'', ''chart-percentile mid''), (utf16 ''10th'', ''chart-percentile''),
           (utf16 ''50th'', ''chart-percentile major''), (utf16 ''97th'', ''chart-percentile mid'')]"
    by (simp add: sampleCurves_def utf16_def)
  have b: "map (\<lambda>k. (k, ?f k)) (map curve_key (rev sampleCurves)) =
          [(utf16 ''97th'', ''chart-percentile mid''), (utf16 ''50th'', ''chart-percentile major''),
           (utf16 ''10th'', ''chart-percentile''), (utf16 ''3rd'', ''chart-percentile mid'')]"
    by (simp add: sampleCurves_def utf16_def)
  show ?thesis
    using styled [of sampleCurves] styled [of "rev sampleCurves"] a b by simp
qed

lemma visitEvents_both:
  "growthInjection v \<Longrightarrow> suppressionInjection v \<Longrightarrow>
   visitEvents v =
     [\<lparr>event_x = visit_ageMonths v, event_label = growthLabel,
       event_type = Growth, event_offset = Some (Fin (- 8))\<rparr>,
      \<lparr>event_x = visit_ageMonths v, event_label = suppressionLabel,
       event_type = Suppression, event_offset = Some (Fin 8)\<rparr>]"
  by (simp add: visitEvents_def)

lemma visitEvents_single:
  "\<not> (growthInjection v \<and> suppressionInjection v) \<Longrightarrow>
   visitEvents v =
     (if growthInjection v
      then [\<lparr>event_x = visit_ageMonths v, event_label = growthLabel,
             event_type = Growth, event_offset = None\<rparr>]
      else if suppressionInjection v
      then [\<lparr>event_x = visit_ageMonths v, event_label = suppressionLabel,
             event_type = Suppression, event_offset = None\<rparr>]
      else [])"
  by (auto simp: visitEvents_def)

text \<open>
  C7 (as amended).  A visit with both injections yields two events at the visit's x,
  growth first with offset -8 and suppression second with offset 8, drawn 8 units left
  and 8 units right of the visit's x position.  A visit with at most one injection
  yields at most one event, without offset, drawn at the visit's x position.  The events
  of a list of visits are those of each visit in turn, so no offset ever depends on
  another visit.
\<close>

theorem paired_injection_offsets:
  "(growthInjection v \<and> suppressionInjection v \<longrightarrow>
      map event_x (visitEvents v) = [visit_ageMonths v, visit_ageMonths v] \<and>
      map event_type (visitEvents v) = [Growth, Suppression] \<and>
      map event_offset (visitEvents v) = [Some (Fin (- 8)), Some (Fin 8)] \<and>
      map marker_x (map (eventMarker p) (visitEvents v)) =
        [jsAdd (xFor p (visit_ageMonths v)) (Fin (- 8)),
         jsAdd (xFor p (visit_ageMonths v)) (Fin 8)])
   \<and>
   (\<not> (growthInjection v \<and> suppressionInjection v) \<longrightarrow>
      length (visitEvents v) \<le> 1 \<and>
      (\<forall>e\<in>set (visitEvents v). event_offset e = None \<and>
         marker_x (eventMarker p e) = jsAdd (xFor p (visit_ageMonths v)) (Fin 0)))
   \<and>
   injectionEvents (vs @ [v]) = injectionEvents vs @ visitEvents v"
proof (intro conjI impI)
  assume both: "growthInjection v \<and> suppressionInjection v"
  then have ev: "visitEvents v =
     [\<lparr>event_x = visit_ageMonths v, event_label = growthLabel,
       event_type = Growth, event_offset = Some (Fin (- 8))\<rparr>,
      \<lparr>event_x = visit_ageMonths v, event_label = suppressionLabel,
       event_type = Suppression, event_offset = Some (Fin 8)\<rparr>]"
    by (simp add: visitEvents_both)
  show "map event_x (visitEvents v) = [visit_ageMonths v, visit_ageMonths v]"
    by (simp add: ev)
  show "map event_type (visitEvents v) = [Growth, Suppression]"
    by (simp add: ev)
  show "map event_offset (visitEvents v) = [Some (Fin (- 8)), Some (Fin 8)]"
    by (simp add: ev)
  show "map marker_x (map (eventMarker p) (visitEvents v)) =
        [jsAdd (xFor p (visit_ageMonths v)) (Fin (- 8)),
         jsAdd (xFor p (visit_ageMonths v)) (Fin 8)]"
    by (simp add: ev eventMarker_def)
next
  assume single: "\<not> (growthInjection v \<and> suppressionInjection v)"
  note ev = visitEvents_single [OF single]
  show "length (visitEvents v) \<le> 1"
    by (simp add: ev)
  show "\<forall>e\<in>set (visitEvents v). event_offset e = None \<and>
         marker_x (eventMarker p e) = jsAdd (xFor p (visit_ageMonths v)) (Fin 0)"
    by (simp add: ev eventMarker_def)
next
  show "injectionEvents (vs @ [v]) = injectionEvents vs @ visitEvents v"
    by (simp add: injectionEvents_def)
qed

theorem paired_injection_offsets_witness:
  "map event_x (visitEvents (sampleVisit True True)) = [Fin 100, Fin 100] \<and>
   map event_offset (visitEvents (sampleVisit True True)) = [Some (Fin (- 8)), Some (Fin 8)] \<and>
   map marker_x (map (eventMarker oneVisitChart) (visitEvents (sampleVisit True True))) =
     [jsAdd (xFor oneVisitChart (Fin 100)) (Fin (- 8)), jsAdd (xFor oneVisitChart (Fin 100)) (Fin 8)] \<and>
   length (visitEvents (sampleVisit True False)) \<le> 1 \<and>
   injectionEvents ([] @ [sampleVisit True True]) = injectionEvents [] @ visitEvents (sampleVisit True True)"
  using paired_injection_offsets [of "sampleVisit True True" oneVisitChart "[]"]
        paired_injection_offsets [of "sampleVisit True False" oneVisitChart "[]"]
  by (simp add: sampleVisit_def)

text \<open>
  Two visits at one age, the first with the growth injection only and the second with
  the suppression injection only, yield exactly two events with one x, neither of them
  offset: both markers are drawn at the same position.
\<close>

theorem shared_x_without_offsets_counterexample:
  "map event_x (injectionEvents [sampleVisit True False, sampleVisit False True]) =
     [Fin 100, Fin 100] \<and>
   map event_type (injectionEvents [sampleVisit True False, sampleVisit False True]) =
     [Growth, Suppression] \<and>
   map event_offset (injectionEvents [sampleVisit True False, sampleVisit False True]) =
     [None, None] \<and>
   map marker_x (map (eventMarker oneVisitChart)
       (injectionEvents [sampleVisit True False, sampleVisit False True])) =
     [jsAdd (xFor oneVisitChart (Fin 100)) (Fin 0), jsAdd (xFor oneVisitChart (Fin 100)) (Fin 0)]"
  by (simp add: injectionEvents_def visitEvents_def sampleVisit_def eventMarker_def)

section \<open>Properties of the growth table parser\<close>

lemma findIndex_ge: "- 1 \<le> findIndex P xs"
  by (induction xs) (auto simp: Let_def)

lemma findIndex_neg_iff: "findIndex P xs < 0 \<longleftrightarrow> (\<forall>x\<in>set xs. \<not> P x)"
proof (induction xs)
  case Nil
  show ?case by simp
next
  case (Cons x xs)
  have "- 1 \<le> findIndex P xs"
    by (rule findIndex_ge)
  with Cons show ?case
    by (auto simp: Let_def)
qed

lemma pushPercentile_loop:
  assumes "\<forall>c\<in>set cols. percentiles e (column_name c) \<noteq> None"
  shows "\<exists>e'. forEach (pushPercentile N cells) cols e = Inr e' \<and>
           ages e' = ages e \<and>
           (\<forall>n. percentiles e n = None \<longrightarrow> percentiles e' n = None) \<and>
           (\<forall>n arr. percentiles e n = Some arr \<longrightarrow>
              (\<exists>arr'. percentiles e' n = Some arr' \<and>
                     length arr' = length arr + count_list (map column_name cols) n))"
  using assms
proof (induction cols arbitrary: e)
  case Nil
  show ?case by simp
next
  case (Cons c cols)
  from Cons.prems obtain arr0 where arr0: "percentiles e (column_name c) = Some arr0"
    by auto
  define v where "v = (let parsed = parseFloat N (elemAt cells (column_index c))
                        in if isFinite parsed then parsed else NaN)"
  define e1 where "e1 = e\<lparr>percentiles := (percentiles e)(column_name c \<mapsto> arr0 @ [v])\<rparr>"
  have step: "pushPercentile N cells e c = Inr e1"
    by (simp add: pushPercentile_def arr0 e1_def v_def Let_def)
  have "\<forall>c'\<in>set cols. percentiles e1 (column_name c') \<noteq> None"
    using Cons.prems by (simp add: e1_def)
  from Cons.IH [OF this] obtain e' where
    run: "forEach (pushPercentile N cells) cols e1 = Inr e'" and
    ag: "ages e' = ages e1" and
    none: "\<forall>n. percentiles e1 n = None \<longrightarrow> percentiles e' n = None" and
    some: "\<forall>n arr. percentiles e1 n = Some arr \<longrightarrow>
              (\<exists>arr'. percentiles e' n = Some arr' \<and>
                     length arr' = length arr + count_list (map column_name cols) n)"
    by blast
  have "forEach (pushPercentile N cells) (c # cols) e = Inr e'"
    by (simp add: step run)
  moreover have "ages e' = ages e"
    by (simp add: ag e1_def)
  moreover have "\<forall>n. percentiles e n = None \<longrightarrow> percentiles e' n = None"
  proof (intro allI impI)
    fix n
    assume n: "percentiles e n = None"
    then have "n \<noteq> column_name c"
      using arr0 by auto
    then have "percentiles e1 n = None"
      using n by (simp add: e1_def)
    then show "percentiles e' n = None"
      using none by blast
  qed
  moreover have "\<forall>n arr. percentiles e n = Some arr \<longrightarrow>
              (\<exists>arr'. percentiles e' n = Some arr' \<and>
                     length arr' = length arr + count_list (map column_name (c # cols)) n)"
  proof (intro allI impI)
    fix n arr
    assume n: "percentiles e n = Some arr"
    show "\<exists>arr'. percentiles e' n = Some arr' \<and>
                     length arr' = length arr + count_list (map column_name (c # cols)) n"
    proof (cases "n = column_name c")
      case True
      then have "percentiles e1 n = Some (arr @ [v])"
        using n arr0 by (simp add: e1_def)
      with some obtain arr' where "percentiles e' n = Some arr'"
          "length arr' = length (arr @ [v]) + count_list (map column_name cols) n"
        by blast
      then show ?thesis
        using True by simp
    next
      case False
      then have "percentiles e1 n = Some arr"
        using n by (simp add: e1_def)
      with some obtain arr' where "percentiles e' n = Some arr'"
          "length arr' = length arr + count_list (map column_name cols) n"
        by blast
      then show ?thesis
        using False by simp
    qed
  qed
  ultimately show ?case
    by blast
qed


lemma fromEntries_lookup:
  "map_of (map (\<lambda>column. (column_name column, [])) pcs) n =
     (if n \<in> set (map column_name pcs) then Some [] else None)"
  by (induction pcs) auto

lemma curveShape_new:
  "curveShape pcs \<lparr>ages = [],
      percentiles = map_of (map (\<lambda>column. (column_name column, [])) pcs)\<rparr>"
  unfolding curveShape_def by (simp add: fromEntries_lookup)

lemma curveShape_row:
  assumes shape: "curveShape pcs e"
  shows "\<exists>e'. forEach (pushPercentile N cells) pcs (e\<lparr>ages := ages e @ [m]\<rparr>) = Inr e' \<and>
              curveShape pcs e'"
proof -
  let ?e1 = "e\<lparr>ages := ages e @ [m]\<rparr>"
  let ?names = "map column_name pcs"
  have defined: "\<forall>c\<in>set pcs. percentiles ?e1 (column_name c) \<noteq> None"
  proof
    fix c
    assume "c \<in> set pcs"
    then have "column_name c \<in> set ?names"
      by simp
    with shape obtain arr where "percentiles e (column_name c) = Some arr"
      unfolding curveShape_def by meson
    then show "percentiles ?e1 (column_name c) \<noteq> None"
      by simp
  qed
  from pushPercentile_loop [OF defined, of N cells] obtain e' where
    run: "forEach (pushPercentile N cells) pcs ?e1 = Inr e'" and
    ag: "ages e' = ages ?e1" and
    none: "\<forall>n. percentiles ?e1 n = None \<longrightarrow> percentiles e' n = None" and
    some: "\<forall>n arr. percentiles ?e1 n = Some arr \<longrightarrow>
              (\<exists>arr'. percentiles e' n = Some arr' \<and>
                     length arr' = length arr + count_list ?names n)"
    by blast
  have "curveShape pcs e'"
    unfolding curveShape_def
  proof
    fix n
    show "if n \<in> set ?names
          then \<exists>arr. percentiles e' n = Some arr \<and>
                 length arr = count_list ?names n * length (ages e')
          else percentiles e' n = None"
    proof (cases "n \<in> set ?names")
      case True
      with shape obtain arr where arr: "percentiles e n = Some arr"
          "length arr = count_list ?names n * length (ages e)"
        unfolding curveShape_def by meson
      then have "percentiles ?e1 n = Some arr"
        by simp
      with some obtain arr' where "percentiles e' n = Some arr'"
          "length arr' = length arr + count_list ?names n"
        by blast
      then show ?thesis
        using True arr ag by simp
    next
      case False
      with shape have "percentiles e n = None"
        unfolding curveShape_def by meson
      then have "percentiles ?e1 n = None"
        by simp
      with none have "percentiles e' n = None"
        by blast
      then show ?thesis
        using False by simp
    qed
  qed
  with run show ?thesis
    by blast
qed

lemma processRow_shape:
  assumes inv: "\<forall>key e. table key = Some e \<longrightarrow> curveShape pcs e"
  shows "\<exists>table'. processRow N si mi pcs table line = Inr table' \<and>
            (\<forall>key e. table' key = Some e \<longrightarrow> curveShape pcs e)"
proof -
  define cells where "cells = parseCsvLine line"
  define sexValue where "sexValue = parseInt N (elemAt cells (nat si))"
  define monthValue where "monthValue = parseInt N (elemAt cells (nat mi))"
  show ?thesis
  proof (cases "isFinite sexValue \<and> isFinite monthValue")
    case False
    then have "processRow N si mi pcs table line = Inr table"
      by (auto simp: processRow_def Let_def cells_def sexValue_def monthValue_def)
    with inv show ?thesis
      by blast
  next
    case True
    define key where "key = numberToString N sexValue"
    define entry where "entry = (case table key of
                          Some e \<Rightarrow> e
                        | None \<Rightarrow>
                            \<lparr>ages = [],
                             percentiles =
                               map_of (map (\<lambda>column. (column_name column, [])) pcs)\<rparr>)"
    have "curveShape pcs entry"
      using inv curveShape_new [of pcs] by (simp add: entry_def split: option.splits)
    from curveShape_row [OF this, of N cells monthValue] obtain e' where
      run: "forEach (pushPercentile N cells) pcs (entry\<lparr>ages := ages entry @ [monthValue]\<rparr>) = Inr e'"
      and shape: "curveShape pcs e'"
      by blast
    have "processRow N si mi pcs table line = Inr (table(key \<mapsto> e'))"
      using True run
      by (simp add: processRow_def Let_def cells_def [symmetric] sexValue_def [symmetric]
          monthValue_def [symmetric] key_def [symmetric] entry_def [symmetric])
    moreover have "\<forall>k e. (table(key \<mapsto> e')) k = Some e \<longrightarrow> curveShape pcs e"
      using inv shape by auto
    ultimately show ?thesis
      by blast
  qed
qed

lemma rows_shape:
  assumes "\<forall>key e. table key = Some e \<longrightarrow> curveShape pcs e"
  shows "\<exists>table'. forEach (processRow N si mi pcs) rows table = Inr table' \<and>
            (\<forall>key e. table' key = Some e \<longrightarrow> curveShape pcs e)"
  using assms
proof (induction rows arbitrary: table)
  case Nil
  then show ?case by simp
next
  case (Cons row rows)
  from processRow_shape [OF Cons.prems, of N si mi row] obtain t1 where
    t1: "processRow N si mi pcs table row = Inr t1"
        "\<forall>key e. t1 key = Some e \<longrightarrow> curveShape pcs e"
    by blast
  from Cons.IH [OF t1(2)] obtain t2 where
    "forEach (processRow N si mi pcs) rows t1 = Inr t2"
    "\<forall>key e. t2 key = Some e \<longrightarrow> curveShape pcs e"
    by blast
  then show ?case
    using t1 by simp
qed

lemma parseGrowthCsv_shape:
  "\<exists>t. parseGrowthCsv N content = Inr t \<and>
       (t = emptyTable \<or>
        (\<exists>pcs. table_percentiles t = map column_name pcs \<and>
           (\<forall>key e. bySex t key = Some e \<longrightarrow> curveShape pcs e)))"
proof -
  define lines where "lines = nonBlankLines content"
  define cols where "cols = columns lines"
  define si where "si = findIndex (\<lambda>name. name = sexMarker) cols"
  define mi where "mi = findIndex (\<lambda>name. jsIncludes name monthMarker) cols"
  define pcs where "pcs = percentileColumns cols"
  show ?thesis
  proof (cases "length lines < 3 \<or> si < 0 \<or> mi < 0")
    case True
    then have "parseGrowthCsv N content = Inr emptyTable"
      by (auto simp: parseGrowthCsv_def Let_def lines_def cols_def si_def mi_def)
    then show ?thesis
      by simp
  next
    case False
    have "\<forall>key e. (Map.empty :: jsstring \<rightharpoonup> GrowthCurve) key = Some e \<longrightarrow> curveShape pcs e"
      by simp
    from rows_shape [OF this, of N si mi "drop 2 lines"] obtain table where
      run: "forEach (processRow N si mi pcs) (drop 2 lines) Map.empty = Inr table" and
      shape: "\<forall>key e. table key = Some e \<longrightarrow> curveShape pcs e"
      by blast
    have "parseGrowthCsv N content =
            Inr \<lparr>table_percentiles = map column_name pcs, bySex = table\<rparr>"
      using False run
      by (simp add: parseGrowthCsv_def Let_def lines_def [symmetric] cols_def [symmetric]
          si_def [symmetric] mi_def [symmetric] pcs_def [symmetric])
    then show ?thesis
      using shape by auto
  qed
qed

lemma trim_simps:
  "trim [] = []"
  "trim (utf16 '','') = utf16 '',''"
  by (simp_all add: trim_def utf16_def isWhiteSpace_def)

lemma lines_dup:
  "nonBlankLines duplicateLabelCsv =
     [sexMarker @ utf16 '','' @ monthMarker @ utf16 ''),3rd,3rd'', utf16 '',,,'', utf16 ''1,0,50,51'']"
  by (simp add: nonBlankLines_def duplicateLabelCsv_def sexMarker_def monthMarker_def utf16_def
      trim_def isWhiteSpace_def)

lemma row_dup: "parseCsvLine (utf16 ''1,0,50,51'') = [utf16 ''1'', utf16 ''0'', utf16 ''50'', utf16 ''51'']"
  by (simp add: parseCsvLine_def utf16_def trim_def isWhiteSpace_def)

lemma cols_dup:
  "columns [sexMarker @ utf16 '','' @ monthMarker @ utf16 ''),3rd,3rd'', utf16 '',,,'',
            utf16 ''1,0,50,51''] =
     [sexMarker, monthMarker @ utf16 '')'', utf16 ''3rd'', utf16 ''3rd'']"
  by (simp add: columns_def parseCsvLine_def sexMarker_def monthMarker_def utf16_def
      trim_def isWhiteSpace_def elemAt_def stripBom_def enumerate_eq_zip)


lemma pcs_dup:
  "percentileColumns [sexMarker, monthMarker @ utf16 '')'', utf16 ''3rd'', utf16 ''3rd''] =
     [\<lparr>column_name = utf16 ''3rd'', column_index = 2\<rparr>,
      \<lparr>column_name = utf16 ''3rd'', column_index = 3\<rparr>]"
  by (simp add: percentileColumns_def percentilePattern_test_def sexMarker_def monthMarker_def
      utf16_def trim_def isWhiteSpace_def isDigit_def toLowerAscii_def enumerate_eq_zip)

lemma index_dup:
  "findIndex (\<lambda>name. name = sexMarker)
     [sexMarker, monthMarker @ utf16 '')'', utf16 ''3rd'', utf16 ''3rd''] = 0"
  "findIndex (\<lambda>name. jsIncludes name monthMarker)
     [sexMarker, monthMarker @ utf16 '')'', utf16 ''3rd'', utf16 ''3rd''] = 1"
  by (simp_all add: sexMarker_def monthMarker_def utf16_def)

lemma read_samples:
  "readInteger (Some (utf16 ''1'')) = Fin 1"
  "readInteger (Some (utf16 ''0'')) = Fin 0"
  "readInteger (Some (utf16 ''50'')) = Fin 50"
  "readInteger (Some (utf16 ''51'')) = Fin 51"
  by (simp_all add: readInteger_def utf16_def isWhiteSpace_def isDigit_def parseInt10_def)

lemma write_one: "writeInteger (Fin 1) = utf16 ''1''"
  by (simp add: writeInteger_def digitsOf.simps utf16_def)

lemma parse_dup:
  "parseGrowthCsv integerFormat duplicateLabelCsv = Inr duplicateLabelTable"
proof -
  have row: "processRow integerFormat 0 1
       [\<lparr>column_name = utf16 ''3rd'', column_index = 2\<rparr>,
        \<lparr>column_name = utf16 ''3rd'', column_index = 3\<rparr>] Map.empty (utf16 ''1,0,50,51'') =
       Inr [utf16 ''1'' \<mapsto>
                     \<lparr>ages = [Fin 0],
                      percentiles = [utf16 ''3rd'' \<mapsto> [Fin 50, Fin 51]]\<rparr>]"
    by (simp add: processRow_def row_dup integerFormat_def elemAt_def read_samples write_one
        pushPercentile_def Let_def)
  show ?thesis
    unfolding parseGrowthCsv_def Let_def lines_dup cols_dup index_dup pcs_dup
    by (simp add: row duplicateLabelTable_def duplicateLabelCurve_def)
qed


lemma lines_sample:
  "nonBlankLines sampleCsv =
     [sexMarker @ utf16 '','' @ monthMarker @ utf16 ''),3rd,50th'', utf16 '',,,'',
      utf16 ''1,0,46,50'', utf16 ''1,1,50,x'', utf16 ''2,0,45,49'']"
  by (simp add: nonBlankLines_def sampleCsv_def sexMarker_def monthMarker_def utf16_def
      trim_def isWhiteSpace_def)

lemma cols_sample:
  "columns [sexMarker @ utf16 '','' @ monthMarker @ utf16 ''),3rd,50th'', utf16 '',,,'',
            utf16 ''1,0,46,50'', utf16 ''1,1,50,x'', utf16 ''2,0,45,49''] =
     [sexMarker, monthMarker @ utf16 '')'', utf16 ''3rd'', utf16 ''50th'']"
  by (simp add: columns_def parseCsvLine_def sexMarker_def monthMarker_def utf16_def
      trim_def isWhiteSpace_def elemAt_def stripBom_def enumerate_eq_zip)

lemma pcs_sample:
  "percentileColumns [sexMarker, monthMarker @ utf16 '')'', utf16 ''3rd'', utf16 ''50th''] =
     [\<lparr>column_name = utf16 ''3rd'', column_index = 2\<rparr>,
      \<lparr>column_name = utf16 ''50th'', column_index = 3\<rparr>]"
  by (simp add: percentileColumns_def percentilePattern_test_def sexMarker_def monthMarker_def
      utf16_def trim_def isWhiteSpace_def isDigit_def toLowerAscii_def enumerate_eq_zip)

lemma index_sample:
  "findIndex (\<lambda>name. name = sexMarker)
     [sexMarker, monthMarker @ utf16 '')'', utf16 ''3rd'', utf16 ''50th''] = 0"
  "findIndex (\<lambda>name. jsIncludes name monthMarker)
     [sexMarker, monthMarker @ utf16 '')'', utf16 ''3rd'', utf16 ''50th''] = 1"
  by (simp_all add: sexMarker_def monthMarker_def utf16_def)

lemma rows_sample:
  "parseCsvLine (utf16 ''1,0,46,50'') = [utf16 ''1'', utf16 ''0'', utf16 ''46'', utf16 ''50'']"
  "parseCsvLine (utf16 ''1,1,50,x'') = [utf16 ''1'', utf16 ''1'', utf16 ''50'', utf16 ''x'']"
  "parseCsvLine (utf16 ''2,0,45,49'') = [utf16 ''2'', utf16 ''0'', utf16 ''45'', utf16 ''49'']"
  by (simp_all add: parseCsvLine_def utf16_def trim_def isWhiteSpace_def)

lemma read_more:
  "readInteger (Some (utf16 ''2'')) = Fin 2"
  "readInteger (Some (utf16 ''45'')) = Fin 45"
  "readInteger (Some (utf16 ''46'')) = Fin 46"
  "readInteger (Some (utf16 ''49'')) = Fin 49"
  "readInteger (Some (utf16 ''x'')) = NaN"
  by (simp_all add: readInteger_def utf16_def isWhiteSpace_def isDigit_def parseInt10_def)

lemma write_two: "writeInteger (Fin 2) = utf16 ''2''"
  by (simp add: writeInteger_def digitsOf.simps utf16_def)

lemma sample_names_differ:
  "utf16 ''50th'' \<noteq> utf16 ''3rd''" "utf16 ''3rd'' \<noteq> utf16 ''50th''"
  "utf16 ''1'' \<noteq> utf16 ''2''" "utf16 ''2'' \<noteq> utf16 ''1''"
  by (simp_all add: utf16_def)

lemma row_sample_1:
  "processRow integerFormat 0 1
       [\<lparr>column_name = utf16 ''3rd'', column_index = 2\<rparr>,
        \<lparr>column_name = utf16 ''50th'', column_index = 3\<rparr>] Map.empty (utf16 ''1,0,46,50'') =
   Inr [utf16 ''1'' \<mapsto>
          \<lparr>ages = [Fin 0],
           percentiles = [utf16 ''3rd'' \<mapsto> [Fin 46], utf16 ''50th'' \<mapsto> [Fin 50]]\<rparr>]"
  by (simp add: processRow_def rows_sample integerFormat_def elemAt_def read_samples read_more
      write_one write_two pushPercentile_def Let_def sample_names_differ)

lemma row_sample_2:
  "processRow integerFormat 0 1
       [\<lparr>column_name = utf16 ''3rd'', column_index = 2\<rparr>,
        \<lparr>column_name = utf16 ''50th'', column_index = 3\<rparr>]
       [utf16 ''1'' \<mapsto>
          \<lparr>ages = [Fin 0],
           percentiles = [utf16 ''3rd'' \<mapsto> [Fin 46], utf16 ''50th'' \<mapsto> [Fin 50]]\<rparr>]
       (utf16 ''1,1,50,x'') =
   Inr [utf16 ''1'' \<mapsto>
          \<lparr>ages = [Fin 0, Fin 1],
           percentiles = [utf16 ''3rd'' \<mapsto> [Fin 46, Fin 50],
                          utf16 ''50th'' \<mapsto> [Fin 50, NaN]]\<rparr>]"
  by (simp add: processRow_def rows_sample integerFormat_def elemAt_def read_samples read_more
      write_one write_two pushPercentile_def Let_def sample_names_differ)

lemma row_sample_3:
  "processRow integerFormat 0 1
       [\<lparr>column_name = utf16 ''3rd'', column_index = 2\<rparr>,
        \<lparr>column_name = utf16 ''50th'', column_index = 3\<rparr>]
       [utf16 ''1'' \<mapsto>
          \<lparr>ages = [Fin 0, Fin 1],
           percentiles = [utf16 ''3rd'' \<mapsto> [Fin 46, Fin 50],
                          utf16 ''50th'' \<mapsto> [Fin 50, NaN]]\<rparr>]
       (utf16 ''2,0,45,49'') =
   Inr [utf16 ''1'' \<mapsto>
          \<lparr>ages = [Fin 0, Fin 1],
           percentiles = [utf16 ''3rd'' \<mapsto> [Fin 46, Fin 50],
                          utf16 ''50th'' \<mapsto> [Fin 50, NaN]]\<rparr>,
        utf16 ''2'' \<mapsto>
          \<lparr>ages = [Fin 0],
           percentiles = [utf16 ''3rd'' \<mapsto> [Fin 45], utf16 ''50th'' \<mapsto> [Fin 49]]\<rparr>]"
  by (simp add: processRow_def rows_sample integerFormat_def elemAt_def read_samples read_more
      write_one write_two pushPercentile_def Let_def sample_names_differ)

lemma parse_sample:
  "parseGrowthCsv integerFormat sampleCsv = Inr sampleTable"
  unfolding parseGrowthCsv_def Let_def lines_sample cols_sample index_sample pcs_sample
  by (simp add: row_sample_1 row_sample_2 row_sample_3 sampleTable_def sampleCurve1_def
      sampleCurve2_def)


text \<open>
  C4.  When the text has fewer than three non-blank lines, or none of its effective column
  names is the sex marker, or none contains the age-in-months marker, the parser returns
  the table with no percentile label and no sex.  Whatever the text and the number
  conversions, the parser returns a table and never throws: the one place that could,
  the push onto the array under a column's name, always finds the array (lemma
  \<open>parsed_curve_lengths\<close> below rests on the same invariant).  The parser reads
  nothing but its argument, so a text has one parse result, as often as it is parsed.
\<close>

theorem parseGrowthCsv_missing_columns:
  "(length (nonBlankLines content) < 3 \<or>
    sexMarker \<notin> set (columns (nonBlankLines content)) \<or>
    (\<forall>name\<in>set (columns (nonBlankLines content)). \<not> jsIncludes name monthMarker)
    \<longrightarrow> parseGrowthCsv N content = Inr \<lparr>table_percentiles = [], bySex = Map.empty\<rparr>)
   \<and>
   (\<exists>!t. parseGrowthCsv N content = Inr t)"
proof (intro conjI impI)
  let ?cols = "columns (nonBlankLines content)"
  assume "length (nonBlankLines content) < 3 \<or> sexMarker \<notin> set ?cols \<or>
    (\<forall>name\<in>set ?cols. \<not> jsIncludes name monthMarker)"
  then consider "length (nonBlankLines content) < 3"
    | "findIndex (\<lambda>name. name = sexMarker) ?cols < 0"
    | "findIndex (\<lambda>name. jsIncludes name monthMarker) ?cols < 0"
    by (auto simp: findIndex_neg_iff)
  then show "parseGrowthCsv N content = Inr \<lparr>table_percentiles = [], bySex = Map.empty\<rparr>"
    by cases (simp_all add: parseGrowthCsv_def Let_def emptyTable_def)
next
  from parseGrowthCsv_shape [of N content] obtain t where "parseGrowthCsv N content = Inr t"
    by blast
  then show "\<exists>!t. parseGrowthCsv N content = Inr t"
    by simp
qed

lemma lines_none:
  "nonBlankLines noColumnsCsv = [utf16 ''age,3rd'', utf16 '','', utf16 ''1,50'']"
  by (simp add: nonBlankLines_def noColumnsCsv_def utf16_def trim_def isWhiteSpace_def)

lemma cols_none:
  "columns [utf16 ''age,3rd'', utf16 '','', utf16 ''1,50''] = [utf16 ''age'', utf16 ''3rd'']"
  by (simp add: columns_def parseCsvLine_def utf16_def trim_def isWhiteSpace_def elemAt_def
      stripBom_def enumerate_eq_zip)

theorem parseGrowthCsv_missing_columns_witness:
  "parseGrowthCsv integerFormat noColumnsCsv = Inr \<lparr>table_percentiles = [], bySex = Map.empty\<rparr> \<and>
   (\<exists>!t. parseGrowthCsv integerFormat noColumnsCsv = Inr t) \<and>
   (\<exists>!t. parseGrowthCsv integerFormat sampleCsv = Inr t)"
proof -
  have "sexMarker \<notin> set (columns (nonBlankLines noColumnsCsv))"
    by (simp add: lines_none cols_none) (simp add: sexMarker_def utf16_def)
  then show ?thesis
    using parseGrowthCsv_missing_columns [of noColumnsCsv integerFormat]
          parseGrowthCsv_missing_columns [of sampleCsv integerFormat]
    by blast
qed

lemma count_list_distinct: "distinct xs \<Longrightarrow> x \<in> set xs \<Longrightarrow> count_list xs x = 1"
  by (induction xs) (auto simp: count_list_0_iff)

lemma parsed_curve_lengths:
  assumes "parseGrowthCsv N content = Inr t" "bySex t key = Some curve"
      "label \<in> set (table_percentiles t)"
  shows "\<exists>arr. percentiles curve label = Some arr \<and>
           length arr = count_list (table_percentiles t) label * length (ages curve)"
proof -
  from parseGrowthCsv_shape [of N content] assms(1) have
    "t = emptyTable \<or>
        (\<exists>pcs. table_percentiles t = map column_name pcs \<and>
           (\<forall>key e. bySex t key = Some e \<longrightarrow> curveShape pcs e))"
    by simp
  moreover have "t \<noteq> emptyTable"
    using assms(2) by (auto simp: emptyTable_def)
  ultimately obtain pcs where pcs: "table_percentiles t = map column_name pcs"
      and shape: "curveShape pcs curve"
    using assms(2) by blast
  from shape assms(3) show ?thesis
    unfolding curveShape_def pcs by meson
qed

text \<open>
  C5 (as amended).  When the percentile labels of the output are pairwise distinct, the
  array stored for each of them under each sex has the length of that sex's age array.
  In general the array of a label holds, for every row, one value per column carrying
  that label.
\<close>

theorem percentile_arrays_parallel:
  "(parseGrowthCsv N content = Inr t \<and> distinct (table_percentiles t) \<and>
    bySex t key = Some curve \<and> label \<in> set (table_percentiles t)
    \<longrightarrow> (\<exists>arr. percentiles curve label = Some arr \<and> length arr = length (ages curve)))
   \<and>
   (parseGrowthCsv N content = Inr t \<and>
    bySex t key = Some curve \<and> label \<in> set (table_percentiles t)
    \<longrightarrow> (\<exists>arr. percentiles curve label = Some arr \<and>
           length arr = count_list (table_percentiles t) label * length (ages curve)))"
proof (intro conjI impI)
  assume h: "parseGrowthCsv N content = Inr t \<and> distinct (table_percentiles t) \<and>
    bySex t key = Some curve \<and> label \<in> set (table_percentiles t)"
  then obtain arr where arr: "percentiles curve label = Some arr"
      "length arr = count_list (table_percentiles t) label * length (ages curve)"
    using parsed_curve_lengths [of N content t key curve label] by blast
  moreover have "count_list (table_percentiles t) label = 1"
    using h by (simp add: count_list_distinct)
  ultimately show "\<exists>arr. percentiles curve label = Some arr \<and> length arr = length (ages curve)"
    by simp
next
  assume "parseGrowthCsv N content = Inr t \<and>
    bySex t key = Some curve \<and> label \<in> set (table_percentiles t)"
  then show "\<exists>arr. percentiles curve label = Some arr \<and>
           length arr = count_list (table_percentiles t) label * length (ages curve)"
    using parsed_curve_lengths [of N content t key curve label] by blast
qed

theorem percentile_arrays_parallel_witness:
  "parseGrowthCsv integerFormat sampleCsv = Inr sampleTable \<and>
   distinct (table_percentiles sampleTable) \<and>
   utf16 ''50th'' \<in> set (table_percentiles sampleTable) \<and>
   bySex sampleTable (utf16 ''1'') = Some sampleCurve1 \<and>
   ages sampleCurve1 = [Fin 0, Fin 1] \<and>
   percentiles sampleCurve1 (utf16 ''50th'') = Some [Fin 50, NaN] \<and>
   (\<exists>arr. percentiles sampleCurve1 (utf16 ''50th'') = Some arr \<and>
          length arr = length (ages sampleCurve1))"
proof -
  have d: "distinct (table_percentiles sampleTable)"
    by (simp add: sampleTable_def sample_names_differ)
  have l: "utf16 ''50th'' \<in> set (table_percentiles sampleTable)"
    by (simp add: sampleTable_def)
  have c: "bySex sampleTable (utf16 ''1'') = Some sampleCurve1"
    by (simp add: sampleTable_def sample_names_differ)
  have v: "ages sampleCurve1 = [Fin 0, Fin 1]"
      "percentiles sampleCurve1 (utf16 ''50th'') = Some [Fin 50, NaN]"
    by (simp_all add: sampleCurve1_def)
  show ?thesis
    using percentile_arrays_parallel
            [of integerFormat sampleCsv sampleTable "utf16 ''1''" sampleCurve1 "utf16 ''50th''"]
          parse_sample d l c v
    by simp
qed

text \<open>
  A table whose two percentile columns both carry the label 3rd: its one data row leaves
  one age and two values under 3rd.
\<close>

theorem duplicate_label_counterexample:
  "parseGrowthCsv integerFormat duplicateLabelCsv = Inr duplicateLabelTable \<and>
   utf16 ''3rd'' \<in> set (table_percentiles duplicateLabelTable) \<and>
   bySex duplicateLabelTable (utf16 ''1'') = Some duplicateLabelCurve \<and>
   ages duplicateLabelCurve = [Fin 0] \<and>
   percentiles duplicateLabelCurve (utf16 ''3rd'') = Some [Fin 50, Fin 51]"
  by (simp add: parse_dup) (simp add: duplicateLabelTable_def duplicateLabelCurve_def)

end
